theory Spec2Isabelle
  imports Main
begin

section \<open>Text primitives of the host language\<close>

text \<open>
  Python text is modelled as \<open>string\<close>; a character stands for the code point with the
  same number (0 to 255). \<open>is_space\<close> is the class that \<^verbatim>\<open>\s\<close> and
  \<^verbatim>\<open>str.strip()\<close> use on that range: tab, line feed, vertical tab, form feed,
  carriage return, the four separators 28 to 31, the blank, NEL (133) and the
  no-break space (160).
\<close>

definition is_space :: "char \<Rightarrow> bool" where
  "is_space c = (of_char c \<in> {9, 10, 11, 12, 13, 28, 29, 30, 31, 32, 133, 160 :: nat})"

definition strip :: "string \<Rightarrow> string" where
  "strip s = rev (dropWhile is_space (rev (dropWhile is_space s)))"

section \<open>Template substitution (action\_processing.py, process\_placeholders\_in\_string)\<close>

text \<open>
  The source calls \<^verbatim>\<open>re.sub(r"\{\{\s*([^}\s]+)\s*\}\}", replace_match, text)\<close>.
  \<open>name_char\<close> is the class \<^verbatim>\<open>[^}\s]\<close>. \<open>match_token s\<close> is the attempt to match
  the pattern at the first character of \<open>s\<close>; it returns the captured name (group 1)
  and the text after the match. Lemma \<open>match_token_iff\<close> below shows that this attempt
  succeeds exactly when some prefix of \<open>s\<close> has the pattern's shape, and that the shape
  determines name and rest, so greedy matching and backtracking cannot choose another
  match.
\<close>

definition name_char :: "char \<Rightarrow> bool" where
  "name_char c = (c \<noteq> CHR ''}'' \<and> \<not> is_space c)"

fun close_token :: "string \<Rightarrow> string option" where
  "close_token (a # b # rest) = (if a = CHR ''}'' \<and> b = CHR ''}'' then Some rest else None)"
| "close_token _ = None"

fun match_token :: "string \<Rightarrow> (string \<times> string) option" where
  "match_token (a # b # r) =
     (if a = CHR ''{'' \<and> b = CHR ''{'' then
        (let r1 = dropWhile is_space r;
             nm = takeWhile name_char r1;
             r2 = dropWhile name_char r1
         in if nm = [] then None
            else (case close_token (dropWhile is_space r2) of
                    None \<Rightarrow> None
                  | Some rest \<Rightarrow> Some (nm, rest)))
      else None)"
| "match_token _ = None"

text \<open>\<open>matched_text s rest\<close> is \<^verbatim>\<open>match.group(0)\<close>: the part of \<open>s\<close> the match consumed.\<close>

definition matched_text :: "string \<Rightarrow> string \<Rightarrow> string" where
  "matched_text s rest = take (length s - length rest) s"

text \<open>
  \<^verbatim>\<open>replace_match\<close>: \<^verbatim>\<open>resolved_placeholders.get(placeholder_name, match.group(0))\<close>.
\<close>

definition replace_match :: "(string \<rightharpoonup> string) \<Rightarrow> string \<Rightarrow> string \<Rightarrow> string" where
  "replace_match resolved_placeholders placeholder_name group0 =
     (case resolved_placeholders placeholder_name of
        None \<Rightarrow> group0
      | Some v \<Rightarrow> v)"

lemma close_token_length: "close_token s = Some rest \<Longrightarrow> length rest < length s"
  by (induction s rule: close_token.induct) (auto split: if_splits)

lemma match_token_length: "match_token s = Some (nm, rest) \<Longrightarrow> length rest < length s"
proof (induction s rule: match_token.induct)
  case (1 a b r)
  then obtain r3 where r3: "close_token (dropWhile is_space
        (dropWhile name_char (dropWhile is_space r))) = Some rest"
    by (auto simp: Let_def split: if_splits option.splits)
  have "length rest < length (dropWhile is_space (dropWhile name_char (dropWhile is_space r)))"
    using close_token_length [OF r3] .
  also have "\<dots> \<le> length (dropWhile name_char (dropWhile is_space r))"
    by (rule length_dropWhile_le)
  also have "\<dots> \<le> length (dropWhile is_space r)"
    by (rule length_dropWhile_le)
  also have "\<dots> \<le> length r"
    by (rule length_dropWhile_le)
  finally show ?case by simp
qed simp_all

text \<open>
  \<^verbatim>\<open>re.sub\<close> scans from left to right: where the pattern matches, the replacement is
  emitted and scanning resumes after the match (a replacement is never scanned again);
  elsewhere one character is copied.
\<close>

function re_sub_placeholders :: "(string \<rightharpoonup> string) \<Rightarrow> string \<Rightarrow> string" where
  "re_sub_placeholders resolved_placeholders [] = []"
| "re_sub_placeholders resolved_placeholders (c # cs) =
     (case match_token (c # cs) of
        None \<Rightarrow> c # re_sub_placeholders resolved_placeholders cs
      | Some (nm, rest) \<Rightarrow>
          replace_match resolved_placeholders nm (matched_text (c # cs) rest)
            @ re_sub_placeholders resolved_placeholders rest)"
  by pat_completeness auto
termination
  by (relation "measure (\<lambda>(m, s). length s)") (auto dest: match_token_length)

text \<open>
  The texts passed in are \<^verbatim>\<open>str\<close> and every stored value is a \<^verbatim>\<open>str\<close>, so neither the
  \<^verbatim>\<open>isinstance\<close> guard nor the \<^verbatim>\<open>except\<close> branch (both return the text unchanged) is
  taken.
\<close>

definition process_placeholders_in_string :: "string \<Rightarrow> (string \<rightharpoonup> string) \<Rightarrow> string" where
  "process_placeholders_in_string text_to_process resolved_placeholders =
     re_sub_placeholders resolved_placeholders text_to_process"

text \<open>The scan itself, kept as a list of pieces: copied characters and matched tokens.\<close>

datatype piece = Lit char | Tok string string

function scan :: "string \<Rightarrow> piece list" where
  "scan [] = []"
| "scan (c # cs) =
     (case match_token (c # cs) of
        None \<Rightarrow> Lit c # scan cs
      | Some (nm, rest) \<Rightarrow> Tok nm (matched_text (c # cs) rest) # scan rest)"
  by pat_completeness auto
termination
  by (relation "measure length") (auto dest: match_token_length)

fun piece_text :: "piece \<Rightarrow> string" where
  "piece_text (Lit c) = [c]"
| "piece_text (Tok nm raw) = raw"

fun render :: "(string \<rightharpoonup> string) \<Rightarrow> piece \<Rightarrow> string" where
  "render m (Lit c) = [c]"
| "render m (Tok nm raw) = (case m nm of None \<Rightarrow> raw | Some v \<Rightarrow> v)"

fun unknown_piece :: "(string \<rightharpoonup> string) \<Rightarrow> piece \<Rightarrow> bool" where
  "unknown_piece m (Lit c) = True"
| "unknown_piece m (Tok nm raw) = (m nm = None)"

fun is_tok :: "piece \<Rightarrow> bool" where
  "is_tok (Lit c) = False"
| "is_tok (Tok nm raw) = True"

definition contains_token :: "string \<Rightarrow> bool" where
  "contains_token v = list_ex is_tok (scan v)"

text \<open>
  The condition of the specification's idempotence property, in its own words: the text
  contains no token whose name is a key of the map with a value that itself contains a
  token.
\<close>

fun spec_harmless_piece :: "(string \<rightharpoonup> string) \<Rightarrow> piece \<Rightarrow> bool" where
  "spec_harmless_piece m (Lit c) = True"
| "spec_harmless_piece m (Tok nm raw) =
     (case m nm of None \<Rightarrow> True | Some v \<Rightarrow> \<not> contains_token v)"

definition spec_idempotence_condition :: "string \<Rightarrow> (string \<rightharpoonup> string) \<Rightarrow> bool" where
  "spec_idempotence_condition t m = list_all (spec_harmless_piece m) (scan t)"

section \<open>More of the host language\<close>

text \<open>
  Truthiness of an optional text: \<^verbatim>\<open>None\<close> and the empty text are false.
\<close>

fun truthy :: "string option \<Rightarrow> bool" where
  "truthy None = False"
| "truthy (Some s) = (s \<noteq> [])"

fun join :: "string \<Rightarrow> string list \<Rightarrow> string" where
  "join sep [] = []"
| "join sep [x] = x"
| "join sep (x # y # ys) = x @ sep @ join sep (y # ys)"

text \<open>\<^verbatim>\<open>s.split(c)\<close> with a one-character separator: always at least one field.\<close>

fun split_on :: "char \<Rightarrow> string \<Rightarrow> string list" where
  "split_on c [] = [[]]"
| "split_on c (x # xs) =
     (if x = c then [] # split_on c xs
      else (case split_on c xs of
              [] \<Rightarrow> [[x]]
            | w # ws \<Rightarrow> (x # w) # ws))"

definition starts_with :: "string \<Rightarrow> string \<Rightarrow> bool" where
  "starts_with s p = (take (length p) s = p)"

definition ends_with :: "string \<Rightarrow> string \<Rightarrow> bool" where
  "ends_with s p = (length p \<le> length s \<and> drop (length s - length p) s = p)"

text \<open>\<^verbatim>\<open>p in s\<close> on texts.\<close>

fun contains :: "string \<Rightarrow> string \<Rightarrow> bool" where
  "contains [] p = (p = [])"
| "contains (c # cs) p = (starts_with (c # cs) p \<or> contains cs p)"

text \<open>\<^verbatim>\<open>s.strip('/')\<close>.\<close>

definition strip_slash :: "string \<Rightarrow> string" where
  "strip_slash s =
     rev (dropWhile (\<lambda>c. c = CHR ''/'') (rev (dropWhile (\<lambda>c. c = CHR ''/'') s)))"

text \<open>\<^verbatim>\<open>str.lower()\<close> on the code points 0 to 255.\<close>

definition lower_char :: "char \<Rightarrow> char" where
  "lower_char c =
     (let n = (of_char c :: nat)
      in if (65 \<le> n \<and> n \<le> 90) \<or> (192 \<le> n \<and> n \<le> 222 \<and> n \<noteq> 215)
         then char_of (n + 32) else c)"

definition lower :: "string \<Rightarrow> string" where
  "lower s = map lower_char s"

subsection \<open>Numbers as text\<close>

definition digit_char :: "nat \<Rightarrow> char" where
  "digit_char d = ''0123456789'' ! d"

function show_nat :: "nat \<Rightarrow> string" where
  "show_nat n = (if n < 10 then [digit_char n] else show_nat (n div 10) @ [digit_char (n mod 10)])"
  by pat_completeness auto
termination
  by (relation "measure id") auto

definition show_int :: "int \<Rightarrow> string" where
  "show_int i = (if i < 0 then CHR ''-'' # show_nat (nat (- i)) else show_nat (nat i))"

definition is_digit :: "char \<Rightarrow> bool" where
  "is_digit c = (48 \<le> (of_char c :: nat) \<and> (of_char c :: nat) \<le> 57)"

definition digits_value :: "string \<Rightarrow> nat" where
  "digits_value ds = foldl (\<lambda>a c. 10 * a + ((of_char c :: nat) - 48)) 0 ds"

text \<open>
  \<^verbatim>\<open>int(key)\<close> in base ten; \<open>None\<close> stands for \<^verbatim>\<open>ValueError\<close>. Around the number \<^verbatim>\<open>int\<close>
  skips tab, line feed, vertical tab, form feed, carriage return and the blank, and also
  NEL (133) and the no-break space (160), which it first turns into blanks; it does not
  skip the separators 28 to 31 that \<^verbatim>\<open>str.strip()\<close> removes. An optional sign follows, then
  groups of digits separated by single underscores. More than 4300 digits are refused
  (the interpreter's default limit for the conversion of texts to integers); signs,
  underscores and the skipped characters do not count.
\<close>

definition int_space :: "char \<Rightarrow> bool" where
  "int_space c = (of_char c \<in> {9, 10, 11, 12, 13, 32, 133, 160 :: nat})"

definition int_strip :: "string \<Rightarrow> string" where
  "int_strip s = rev (dropWhile int_space (rev (dropWhile int_space s)))"

definition int_body :: "string \<Rightarrow> nat option" where
  "int_body b =
     (let groups = split_on CHR ''_'' b
      in if list_all (\<lambda>g. g \<noteq> [] \<and> list_all is_digit g) groups
            \<and> length (concat groups) \<le> 4300
         then Some (digits_value (concat groups)) else None)"

definition py_int :: "string \<Rightarrow> int option" where
  "py_int s =
     (case int_strip s of
        [] \<Rightarrow> None
      | c # cs \<Rightarrow>
          if c = CHR ''-'' then map_option (\<lambda>n. - int n) (int_body cs)
          else if c = CHR ''+'' then map_option int (int_body cs)
          else map_option int (int_body (c # cs)))"

subsection \<open>Parsed documents\<close>

text \<open>
  What \<^verbatim>\<open>json.loads\<close> and \<^verbatim>\<open>yaml.safe_load\<close> return: \<^verbatim>\<open>None\<close>, booleans, integers,
  texts, lists and dictionaries, and values of other types (floating-point numbers,
  dates, byte strings). A dictionary is the list of its items in insertion order, with
  distinct keys. The program does three things with a value of another type: it tests
  that it is not \<^verbatim>\<open>None\<close>, not a dictionary and not a list, and it takes its \<^verbatim>\<open>str\<close> or,
  inside a list or a dictionary, its \<^verbatim>\<open>repr\<close>. So \<open>YOther s r\<close> is such a value with these
  two texts, and \<open>KOther r\<close> such a key with its \<^verbatim>\<open>repr\<close>.
\<close>

datatype ykey = KNull | KBool bool | KInt int | KStr string | KOther string

datatype yaml =
    YNull
  | YBool bool
  | YInt int
  | YStr string
  | YList "yaml list"
  | YDict "(ykey \<times> yaml) list"
  | YOther string string

subsection \<open>\<^verbatim>\<open>repr\<close> and \<^verbatim>\<open>str\<close>\<close>

definition hex_digit :: "nat \<Rightarrow> char" where
  "hex_digit d = ''0123456789abcdef'' ! d"

definition repr_char :: "char \<Rightarrow> char \<Rightarrow> string" where
  "repr_char q c =
     (let n = (of_char c :: nat)
      in if c = q \<or> c = CHR 0x5C then [CHR 0x5C, c]
         else if c = CHR 0x09 then [CHR 0x5C, CHR ''t'']
         else if c = CHR 0x0A then [CHR 0x5C, CHR ''n'']
         else if c = CHR 0x0D then [CHR 0x5C, CHR ''r'']
         else if n < 32 \<or> (127 \<le> n \<and> n \<le> 160) \<or> n = 173
           then [CHR 0x5C, CHR ''x'', hex_digit (n div 16), hex_digit (n mod 16)]
         else [c])"

definition py_repr_str :: "string \<Rightarrow> string" where
  "py_repr_str s =
     (let q = (if CHR 0x27 \<in> set s \<and> CHR 0x22 \<notin> set s then CHR 0x22 else CHR 0x27)
      in q # concat (map (repr_char q) s) @ [q])"

text \<open>
  An integer of more than 4300 digits has no text: \<^verbatim>\<open>str\<close> and \<^verbatim>\<open>repr\<close> raise \<^verbatim>\<open>ValueError\<close>
  with the message below (the interpreter's default limit; a hexadecimal literal of a
  YAML document can be that long). \<open>str_raises v\<close> says that \<^verbatim>\<open>str(v)\<close> raises for this reason;
  \<open>py_str\<close> and \<open>py_repr\<close> are the texts of the values for which it does not.
\<close>

definition int_too_long :: "int \<Rightarrow> bool" where
  "int_too_long i = (4300 < length (show_nat (nat \<bar>i\<bar>)))"

definition int_limit_message :: string where
  "int_limit_message =
     ''Exceeds the limit (4300 digits) for integer string conversion; use sys.set_int_max_str_digits() to increase the limit''"

fun key_str_raises :: "ykey \<Rightarrow> bool" where
  "key_str_raises (KInt i) = int_too_long i"
| "key_str_raises k = False"

fun str_raises :: "yaml \<Rightarrow> bool" where
  "str_raises (YInt i) = int_too_long i"
| "str_raises (YList vs) = list_ex str_raises vs"
| "str_raises (YDict kvs) = list_ex (\<lambda>(k, v). key_str_raises k \<or> str_raises v) kvs"
| "str_raises v = False"

fun py_repr_key :: "ykey \<Rightarrow> string" where
  "py_repr_key KNull = ''None''"
| "py_repr_key (KBool b) = (if b then ''True'' else ''False'')"
| "py_repr_key (KInt i) = show_int i"
| "py_repr_key (KStr s) = py_repr_str s"
| "py_repr_key (KOther r) = r"

fun py_repr :: "yaml \<Rightarrow> string" where
  "py_repr YNull = ''None''"
| "py_repr (YBool b) = (if b then ''True'' else ''False'')"
| "py_repr (YInt i) = show_int i"
| "py_repr (YStr s) = py_repr_str s"
| "py_repr (YList vs) = ''['' @ join '', '' (map py_repr vs) @ '']''"
| "py_repr (YDict kvs) =
     ''{'' @ join '', '' (map (\<lambda>(k, v). py_repr_key k @ '': '' @ py_repr v) kvs) @ ''}''"
| "py_repr (YOther s r) = r"

fun py_str :: "yaml \<Rightarrow> string" where
  "py_str (YStr s) = s"
| "py_str (YOther s r) = s"
| "py_str v = py_repr v"

definition py_repr_str_list :: "string list \<Rightarrow> string" where
  "py_repr_str_list xs = ''['' @ join '', '' (map py_repr_str xs) @ '']''"

section \<open>The repository host (PyGithub) as an interface\<close>

text \<open>
  The engine reaches the host through a client object. Every client call may return or
  raise, and it may change the host, so a call takes the host state and returns its
  outcome with the new state. The exceptions the source distinguishes are
  \<^verbatim>\<open>UnknownObjectException\<close>, its parent \<^verbatim>\<open>GithubException\<close>, and anything else. A host
  exception carries its status, the \<^verbatim>\<open>message\<close> and the \<^verbatim>\<open>errors\<close> of its data dictionary
  (an absent or empty list of errors is \<open>[]\<close>; an error without a message is \<open>None\<close>),
  and its text \<^verbatim>\<open>str(e)\<close>.
\<close>

record gh_data =
  gd_status :: int
  gd_message :: "string option"
  gd_errors :: "string option list"
  gd_text :: string

datatype exc =
    UnknownObjectException gh_data
  | GithubException gh_data
  | OtherException string

text \<open>\<^verbatim>\<open>e.data.get('message', str(e))\<close>.\<close>

definition data_message :: "gh_data \<Rightarrow> string" where
  "data_message d = (case gd_message d of Some m \<Rightarrow> m | None \<Rightarrow> gd_text d)"

text \<open>\<^verbatim>\<open>str(e)\<close> of any exception.\<close>

fun exc_text :: "exc \<Rightarrow> string" where
  "exc_text (UnknownObjectException d) = gd_text d"
| "exc_text (GithubException d) = gd_text d"
| "exc_text (OtherException t) = t"

record repo_obj =
  ro_full_name :: string
  ro_default_branch :: "string option"
  ro_owner_login :: string

text \<open>
  A content item. Reading \<^verbatim>\<open>decoded_content\<close> and decoding it as UTF-8 gives a text; or
  the bytes are there and do not decode (with the text of that exception); or the
  attribute is missing; or reading it raises.
\<close>

datatype decoded = Decoded string | NotUtf8 string | NoDecodedAttr | DecodeRaises string

record content_file =
  cf_path :: string
  cf_sha :: "string option"
  cf_type :: string
  cf_decoded :: decoded

datatype contents = CFile content_file | CDir "content_file list"

record 'h github =
  gh_get_repo :: "'h \<Rightarrow> string \<Rightarrow> (exc + repo_obj) \<times> 'h"
  gh_get_git_ref :: "'h \<Rightarrow> repo_obj \<Rightarrow> string \<Rightarrow> (exc + unit) \<times> 'h"
  gh_get_contents :: "'h \<Rightarrow> repo_obj \<Rightarrow> string \<Rightarrow> string \<Rightarrow> (exc + contents) \<times> 'h"
  gh_get_branch :: "'h \<Rightarrow> repo_obj \<Rightarrow> string \<Rightarrow> (exc + string) \<times> 'h"
  gh_create_git_ref :: "'h \<Rightarrow> repo_obj \<Rightarrow> string \<Rightarrow> string \<Rightarrow> (exc + unit) \<times> 'h"
  gh_delete_file :: "'h \<Rightarrow> repo_obj \<Rightarrow> string \<Rightarrow> string \<Rightarrow> string \<Rightarrow> string \<Rightarrow> (exc + unit) \<times> 'h"
  gh_update_file ::
    "'h \<Rightarrow> repo_obj \<Rightarrow> string \<Rightarrow> string \<Rightarrow> string \<Rightarrow> string \<Rightarrow> string \<Rightarrow> (exc + string) \<times> 'h"
  gh_create_file ::
    "'h \<Rightarrow> repo_obj \<Rightarrow> string \<Rightarrow> string \<Rightarrow> string \<Rightarrow> string \<Rightarrow> (exc + string) \<times> 'h"
  gh_get_pulls :: "'h \<Rightarrow> repo_obj \<Rightarrow> string \<Rightarrow> string \<Rightarrow> (exc + string list) \<times> 'h"
  gh_create_pull ::
    "'h \<Rightarrow> repo_obj \<Rightarrow> string \<Rightarrow> string \<Rightarrow> string \<Rightarrow> string \<Rightarrow> (exc + string) \<times> 'h"
  gh_search_code :: "'h \<Rightarrow> string \<Rightarrow> (exc + string list \<times> exc option) \<times> 'h"
  gh_get_git_tree :: "'h \<Rightarrow> repo_obj \<Rightarrow> string \<Rightarrow> (exc + (string \<times> string) list) \<times> 'h"

text \<open>
  Argument order of the calls: \<open>gh_get_contents h repo path ref\<close>;
  \<open>gh_get_branch h repo name\<close> returns the SHA of the branch head;
  \<open>gh_create_git_ref h repo ref sha\<close>;
  \<open>gh_delete_file h repo path message sha branch\<close>;
  \<open>gh_update_file h repo path message content sha branch\<close> and
  \<open>gh_create_file h repo path message content branch\<close> return the new blob SHA;
  \<open>gh_get_pulls h repo head base\<close> returns the URLs of the open pull requests;
  \<open>gh_create_pull h repo title body head base\<close> returns the URL of the new one;
  \<open>gh_search_code h query\<close> returns the paths the result list yields and the exception,
  if any, that ends its iteration; \<open>gh_get_git_tree h repo sha\<close> returns the elements of
  the recursive tree as (type, path).
\<close>

subsection \<open>github\_utils.py, get\_file\_content\<close>

record FileContentResult =
  fc_content :: "string option"
  fc_sha :: "string option"
  fc_default_branch_name :: "string option"
  fc_error :: "string option"

definition sq :: string where
  "sq = [CHR 0x27]"

definition quoted :: "string \<Rightarrow> string" where
  "quoted s = sq @ s @ sq"

definition fc_failure :: "string option \<Rightarrow> string \<Rightarrow> FileContentResult" where
  "fc_failure default_branch_name err =
     \<lparr>fc_content = None, fc_sha = None, fc_default_branch_name = default_branch_name,
      fc_error = Some err\<rparr>"

definition get_file_content ::
  "'h github \<Rightarrow> 'h \<Rightarrow> string \<Rightarrow> string \<Rightarrow> string option \<Rightarrow> FileContentResult \<times> 'h" where
  "get_file_content g h repo_full_name file_path branch =
     (case gh_get_repo g h repo_full_name of
        (Inl (UnknownObjectException d), h1) \<Rightarrow>
          (fc_failure None (''Repository '' @ quoted repo_full_name @ '' not found.''), h1)
      | (Inl (GithubException d), h1) \<Rightarrow>
          (fc_failure None (''GitHub API error getting repo '' @ quoted repo_full_name @ '': ''
             @ data_message d), h1)
      | (Inl (OtherException t), h1) \<Rightarrow>
          (fc_failure None (''An unexpected error occurred while fetching file: '' @ t), h1)
      | (Inr repo, h1) \<Rightarrow>
          (let default_branch_name = ro_default_branch repo in
           case (case branch of None \<Rightarrow> default_branch_name | Some b \<Rightarrow> Some b) of
             None \<Rightarrow>
               (fc_failure None
                  (''Could not determine default branch for '' @ repo_full_name @ ''.''), h1)
           | Some actual_branch \<Rightarrow>
               (case gh_get_contents g h1 repo file_path actual_branch of
                  (Inl (UnknownObjectException d), h2) \<Rightarrow>
                    (fc_failure default_branch_name
                       (''File '' @ quoted file_path @ '' not found in branch ''
                          @ quoted actual_branch @ '' of '' @ repo_full_name @ ''.''), h2)
                | (Inl (GithubException d), h2) \<Rightarrow>
                    (fc_failure default_branch_name
                       (''GitHub API error getting file '' @ quoted file_path @ '' from ''
                          @ quoted actual_branch @ '': '' @ data_message d), h2)
                | (Inl (OtherException t), h2) \<Rightarrow>
                    (fc_failure None
                       (''An unexpected error occurred while fetching file: '' @ t), h2)
                | (Inr (CDir items), h2) \<Rightarrow>
                    (fc_failure default_branch_name
                       (''Path '' @ quoted file_path @
                        '' is a directory, not a file. Please provide a path to a specific file.''), h2)
                | (Inr (CFile content_file), h2) \<Rightarrow>
                    (if cf_type content_file = ''dir'' then
                       (fc_failure default_branch_name
                          (''Path '' @ quoted file_path @ '' is a directory, not a file.''), h2)
                     else
                       (case cf_decoded content_file of
                          NoDecodedAttr \<Rightarrow>
                            (fc_failure default_branch_name
                               (''The item at '' @ quoted file_path @
                                '' does not have decodable content (it might be a submodule or an unexpected type).''), h2)
                        | DecodeRaises t \<Rightarrow>
                            (fc_failure None
                               (''An unexpected error occurred while fetching file: '' @ t), h2)
                        | NotUtf8 t \<Rightarrow>
                            (fc_failure None
                               (''An unexpected error occurred while fetching file: '' @ t), h2)
                        | Decoded file_content \<Rightarrow>
                            (\<lparr>fc_content = Some file_content, fc_sha = cf_sha content_file,
                              fc_default_branch_name = default_branch_name,
                              fc_error = None\<rparr>, h2))))))"

section \<open>Placeholder extraction (github\_utils.py)\<close>

subsection \<open>\_get\_value\_from\_path\<close>

text \<open>
  The returned pair is the source's: the value (\<open>YNull\<close> for \<^verbatim>\<open>None\<close>) and the optional
  error text. A text key is looked up exactly first; failing that, the first text key
  equal to it up to case is taken, and the source then tests \<^verbatim>\<open>if not found_key\<close>, which
  is the test modelled by \<open>s \<noteq> []\<close>. When the key is not found the warning that is logged
  lists the keys of the dictionary; if one of them is an integer without text, formatting
  the warning raises, and the handler around the whole function returns its own error.
\<close>

fun key_matches_ci :: "string \<Rightarrow> ykey \<times> yaml \<Rightarrow> bool" where
  "key_matches_ci key (KStr s, v) = (lower s = lower key)"
| "key_matches_ci key (k, v) = False"

definition key_not_found ::
  "(ykey \<times> yaml) list \<Rightarrow> string \<Rightarrow> string \<Rightarrow> yaml \<times> string option" where
  "key_not_found kvs key path =
     (if list_ex (\<lambda>(k, v). key_str_raises k) kvs then
        (YNull, Some (''Error navigating path '' @ quoted path @ '': '' @ int_limit_message))
      else (YNull, Some (''Key '' @ quoted key @ '' not found in path '' @ quoted path)))"

fun walk_path :: "yaml \<Rightarrow> string list \<Rightarrow> string \<Rightarrow> yaml \<times> string option" where
  "walk_path val [] path = (val, None)"
| "walk_path (YDict kvs) (key # keys) path =
     (case map_of kvs (KStr key) of
        Some v \<Rightarrow> walk_path v keys path
      | None \<Rightarrow>
          (case find (key_matches_ci key) kvs of
             Some (KStr s, v) \<Rightarrow>
               (if s \<noteq> [] then walk_path v keys path else key_not_found kvs key path)
           | _ \<Rightarrow> key_not_found kvs key path))"
| "walk_path (YList vs) (key # keys) path =
     (case py_int key of
        None \<Rightarrow> (YNull, Some (''Invalid index '' @ quoted key @ '' in path '' @ quoted path))
      | Some idx \<Rightarrow>
          (if 0 \<le> idx \<and> idx < int (length vs) then walk_path (vs ! nat idx) keys path
           else (YNull, Some (''Index '' @ show_int idx @ '' out of bounds for key ''
                   @ quoted key @ '' in path '' @ quoted path))))"
| "walk_path val (key # keys) path =
     (YNull, Some (''Cannot navigate further at '' @ quoted key @ '' in path '' @ quoted path
        @ ''. Value is not a dict or list.''))"

definition get_value_from_path :: "yaml \<Rightarrow> string \<Rightarrow> yaml \<times> string option" where
  "get_value_from_path data path = walk_path data (split_on CHR ''.'' path) path"

subsection \<open>Library calls\<close>

text \<open>
  The parsers and the regular-expression engine are libraries, taken as parameters.
  A parser returns a document, raises its own decoding error, or raises something else.
  \<^verbatim>\<open>re.search\<close> raises, finds nothing, or returns a match: group 0 and the capture groups,
  each of which is \<open>None\<close> when it took no part in the match.
\<close>

datatype load_result = Loaded yaml | DecodeError string | LoadRaises string

datatype re_result = ReRaises string | ReNoMatch | ReMatch string "string option list"

datatype sub_result = SubDone string | SubReError string | SubRaises string

record pylib =
  json_loads :: "string \<Rightarrow> load_result"
  yaml_safe_load :: "string \<Rightarrow> load_result"
  re_search :: "string \<Rightarrow> string \<Rightarrow> re_result"
  re_sub_count :: "string \<Rightarrow> string \<Rightarrow> string \<Rightarrow> nat \<Rightarrow> sub_result"
  fnmatch :: "string \<Rightarrow> string \<Rightarrow> bool"

subsection \<open>extract\_placeholder\_value\<close>

datatype yaml_path_config = YamlPathAbsent | YamlPathStr string | YamlPathList "string list"

text \<open>
  The configuration dictionary: an absent key is \<open>None\<close> (or \<open>YamlPathAbsent\<close>). Items of a
  path list that are not texts are dropped by the source before anything else, so the list
  holds texts. The group index is the value of a number field of the form
  (\<^verbatim>\<open>st.number_input\<close> with \<^verbatim>\<open>step=1\<close>), an integer far below the limit of 4300 digits, so
  that writing it into a message never raises.
\<close>

record extraction_config =
  cfg_pattern :: "string option"
  cfg_group_index :: "int option"
  cfg_jsonpath_expression :: "string option"
  cfg_yaml_path :: yaml_path_config

record PlaceholderExtractionResult =
  per_value :: "string option"
  per_error :: "string option"

fun match_group :: "string \<Rightarrow> string option list \<Rightarrow> int \<Rightarrow> yaml" where
  "match_group whole groups i =
     (if i = 0 then YStr whole
      else (case groups ! (nat i - 1) of None \<Rightarrow> YNull | Some s \<Rightarrow> YStr s))"

definition list_of_yaml_paths :: "yaml_path_config \<Rightarrow> string list" where
  "list_of_yaml_paths yaml_path_config =
     (case yaml_path_config of
        YamlPathStr s \<Rightarrow> (if strip s \<noteq> [] then [strip s] else [])
      | YamlPathList ps \<Rightarrow> filter (\<lambda>p. strip p \<noteq> []) ps
      | YamlPathAbsent \<Rightarrow> [])"

text \<open>
  The loop over the candidate paths: it returns \<^verbatim>\<open>extracted_value\<close>,
  \<^verbatim>\<open>path_specific_errors\<close> and the text of the exception that ended it, if any. It stops at
  the first path that gives a value other than \<^verbatim>\<open>None\<close> without an error; the value is then
  written to the log, which raises when the value has no text.
\<close>

fun try_yaml_paths ::
  "yaml \<Rightarrow> string list \<Rightarrow> string list \<Rightarrow> yaml \<times> string list \<times> string option" where
  "try_yaml_paths data [] path_specific_errors = (YNull, path_specific_errors, None)"
| "try_yaml_paths data (path_expression # rest) path_specific_errors =
     (case get_value_from_path data path_expression of
        (current_value, path_err) \<Rightarrow>
          (let errs = (if truthy path_err
                       then path_specific_errors @
                              [''Path '' @ quoted path_expression @ '': '' @ the path_err]
                       else path_specific_errors)
           in if current_value \<noteq> YNull \<and> \<not> truthy path_err then
                (current_value, errs,
                 if str_raises current_value then Some int_limit_message else None)
              else try_yaml_paths data rest errs))"

fun is_dict_or_list :: "yaml \<Rightarrow> bool" where
  "is_dict_or_list (YDict kvs) = True"
| "is_dict_or_list (YList vs) = True"
| "is_dict_or_list v = False"

text \<open>
  The body of the \<^verbatim>\<open>try\<close> block with its handlers: it returns \<^verbatim>\<open>extracted_value\<close> and
  \<^verbatim>\<open>error_during_extraction_logic\<close>. The JSON branch and the YAML loop write the value they
  have found to the log; when that raises, the last handler sets the error text and the
  value stays assigned. A value that comes out of this block without an error has
  therefore a text, and \<^verbatim>\<open>str(extracted_value)\<close> after the block does not raise.
\<close>

definition unexpected_error :: "string \<Rightarrow> yaml \<times> string option" where
  "unexpected_error t = (YNull, Some (''Unexpected error during value extraction: '' @ t))"

definition extraction_logic ::
  "pylib \<Rightarrow> string \<Rightarrow> string \<Rightarrow> string \<Rightarrow> extraction_config \<Rightarrow> yaml \<times> string option" where
  "extraction_logic lib file_content_str file_path extraction_method extraction_config =
     (if extraction_method = ''Regex'' then
        (let pattern = cfg_pattern extraction_config;
             group_index = (case cfg_group_index extraction_config of None \<Rightarrow> 0 | Some i \<Rightarrow> i)
         in if \<not> truthy pattern then (YNull, Some ''Regex pattern not provided in config.'')
            else
              (case re_search lib (the pattern) file_content_str of
                 ReRaises t \<Rightarrow> unexpected_error t
               | ReMatch whole groups \<Rightarrow>
                   (if group_index < 0 \<or> group_index > int (length groups) then
                      (YNull, Some (''Regex group_index '' @ show_int group_index
                         @ '' is out of bounds.''))
                    else (match_group whole groups group_index, None))
               | ReNoMatch \<Rightarrow>
                   (YNull, Some (''Regex pattern '' @ quoted (the pattern)
                      @ '' did not match in file '' @ quoted file_path @ ''.''))))
      else if extraction_method = ''JSON Path'' then
        (let jsonpath_expression = cfg_jsonpath_expression extraction_config
         in if \<not> truthy jsonpath_expression then
              (YNull, Some ''JSONPath expression not provided in config.'')
            else
              (case json_loads lib file_content_str of
                 Loaded data \<Rightarrow>
                   (case get_value_from_path data (the jsonpath_expression) of
                      (extracted_value, path_err) \<Rightarrow>
                        (if \<not> truthy path_err \<and> extracted_value \<noteq> YNull
                            \<and> str_raises extracted_value then
                           (extracted_value, snd (unexpected_error int_limit_message))
                         else (extracted_value, path_err)))
               | DecodeError t \<Rightarrow>
                   (YNull, Some (''Failed to parse JSON from '' @ quoted file_path @ '': '' @ t))
               | LoadRaises t \<Rightarrow> unexpected_error t))
      else if extraction_method = ''YAML Path'' then
        (let paths = list_of_yaml_paths (cfg_yaml_path extraction_config)
         in if paths = [] then
              (YNull, Some ''YAML Path list not provided or is empty in config.'')
            else
              (case yaml_safe_load lib file_content_str of
                 Loaded data \<Rightarrow>
                   (if \<not> is_dict_or_list data then
                      (YNull, Some (''YAML content in '' @ quoted file_path
                         @ '' is not a valid mapping or sequence (e.g. JSON object or array).''))
                    else
                      (case try_yaml_paths data paths [] of
                         (extracted_value, path_specific_errors, raised) \<Rightarrow>
                           (if raised \<noteq> None then
                              (extracted_value, snd (unexpected_error (the raised)))
                            else if extracted_value = YNull \<and> path_specific_errors \<noteq> []
                               \<and> length path_specific_errors = length paths then
                              (extracted_value,
                               Some (''All YAML paths failed. Errors: [''
                                 @ join ''; '' path_specific_errors @ '']''))
                            else if extracted_value = YNull then
                              (extracted_value,
                               Some (''None of the provided YAML paths yielded a non-null value from ''
                                 @ quoted file_path @ ''. Tried: '' @ py_repr_str_list paths))
                            else (extracted_value, None))))
               | DecodeError t \<Rightarrow>
                   (YNull, Some (''Failed to parse YAML from '' @ quoted file_path @ '': '' @ t))
               | LoadRaises t \<Rightarrow> unexpected_error t))
      else (YNull, Some (''Unsupported extraction method: '' @ quoted extraction_method @ ''.'')))"

definition extract_placeholder_value ::
  "'h github \<Rightarrow> pylib \<Rightarrow> 'h \<Rightarrow> string \<Rightarrow> string \<Rightarrow> string \<Rightarrow> string \<Rightarrow> extraction_config
     \<Rightarrow> PlaceholderExtractionResult \<times> 'h" where
  "extract_placeholder_value g lib h repo_full_name branch file_path extraction_method
       extraction_config =
     (case get_file_content g h repo_full_name file_path (Some branch) of
        (file_content_result, h1) \<Rightarrow>
          (if truthy (fc_error file_content_result) then
             (\<lparr>per_value = None,
               per_error = Some (''Failed to get file '' @ quoted file_path @ '': ''
                 @ the (fc_error file_content_result))\<rparr>, h1)
           else
             (case fc_content file_content_result of
                None \<Rightarrow>
                  (\<lparr>per_value = None,
                    per_error = Some (''File '' @ quoted file_path
                      @ '' content is None (or could not be decoded).'')\<rparr>, h1)
              | Some file_content_str \<Rightarrow>
                  (case extraction_logic lib file_content_str file_path extraction_method
                          extraction_config of
                     (extracted_value, error_during_extraction_logic) \<Rightarrow>
                       (if truthy error_during_extraction_logic then
                          (\<lparr>per_value = None, per_error = error_during_extraction_logic\<rparr>, h1)
                        else if extracted_value = YNull then
                          (\<lparr>per_value = None, per_error = None\<rparr>, h1)
                        else
                          (\<lparr>per_value = Some (py_str extracted_value), per_error = None\<rparr>,
                           h1))))))"

section \<open>Placeholder resolution and parameter processing (action\_processing.py)\<close>

subsection \<open>Dictionaries\<close>

text \<open>
  A dictionary of texts is the list of its items in insertion order. \<open>dict_set\<close> is
  \<^verbatim>\<open>d[k] = v\<close>: an existing key keeps its place, a new key goes last. \<open>map_of\<close> reads it.
\<close>

fun dict_set :: "string \<Rightarrow> 'v \<Rightarrow> (string \<times> 'v) list \<Rightarrow> (string \<times> 'v) list" where
  "dict_set k v [] = [(k, v)]"
| "dict_set k v ((k', v') # kvs) =
     (if k = k' then (k, v) # kvs else (k', v') # dict_set k v kvs)"

fun dict_del :: "string \<Rightarrow> (string \<times> 'v) list \<Rightarrow> (string \<times> 'v) list" where
  "dict_del k [] = []"
| "dict_del k ((k', v') # kvs) = (if k = k' then dict_del k kvs else (k', v') # dict_del k kvs)"

definition dict_get_or :: "(string \<times> 'v) list \<Rightarrow> string \<Rightarrow> 'v \<Rightarrow> 'v" where
  "dict_get_or d k dflt = (case map_of d k of None \<Rightarrow> dflt | Some v \<Rightarrow> v)"

subsection \<open>\_resolve\_all\_placeholders\_for\_repo\<close>

record Repository =
  r_name :: string
  r_full_name :: string
  r_html_url :: string
  r_updated_at :: string
  r_default_branch :: string

text \<open>
  A placeholder definition; \<open>None\<close> is an absent key. An absent \<^verbatim>\<open>config\<close> is the empty
  configuration, in which every key is absent.
\<close>

record placeholder_def =
  ph_name :: "string option"
  ph_file_path :: "string option"
  ph_method :: "string option"
  ph_config :: extraction_config

definition show_opt :: "string option \<Rightarrow> string" where
  "show_opt x = (case x of None \<Rightarrow> ''None'' | Some s \<Rightarrow> s)"

definition braces :: "string \<Rightarrow> string" where
  "braces nm = ''{{'' @ nm @ ''}}''"

definition builtin_placeholders :: "Repository \<Rightarrow> string \<Rightarrow> (string \<times> string) list" where
  "builtin_placeholders repo_info timestamp_str =
     [(''repo_name'', r_name repo_info),
      (''repo_full_name'', r_full_name repo_info),
      (''repo_default_branch'', r_default_branch repo_info),
      (''timestamp'', timestamp_str)]"

definition invalid_definition :: "placeholder_def \<Rightarrow> bool" where
  "invalid_definition ph_def =
     (\<not> truthy (ph_name ph_def) \<or> \<not> truthy (ph_file_path ph_def) \<or> \<not> truthy (ph_method ph_def))"

text \<open>
  The loop over the definitions. It carries the dictionary, the log and the host state;
  the flag it returns is \<^verbatim>\<open>all_placeholders_successfully_resolved\<close>. The first extraction
  error ends the loop (\<^verbatim>\<open>break\<close>). The extractor of this model returns on every input, so
  the source's \<^verbatim>\<open>except Exception\<close> branch, which ends the loop in the same way, has no
  case here.
\<close>

fun resolve_loop ::
  "'h github \<Rightarrow> pylib \<Rightarrow> Repository \<Rightarrow> placeholder_def list \<Rightarrow> (string \<times> string) list
     \<Rightarrow> string list \<Rightarrow> 'h \<Rightarrow> ((string \<times> string) list \<times> string list \<times> bool) \<times> 'h" where
  "resolve_loop g lib repo_info [] resolved_placeholders action_log h =
     ((resolved_placeholders, action_log, True), h)"
| "resolve_loop g lib repo_info (ph_def # rest) resolved_placeholders action_log h =
     (if invalid_definition ph_def then
        resolve_loop g lib repo_info rest resolved_placeholders
          (action_log @
             [''- WARNING: Invalid placeholder definition skipped: Name=''
                @ quoted (show_opt (ph_name ph_def)) @ '', Path=''
                @ quoted (show_opt (ph_file_path ph_def)) @ '', Method=''
                @ quoted (show_opt (ph_method ph_def))]) h
      else
        (let nm = the (ph_name ph_def); fp = the (ph_file_path ph_def) in
         case extract_placeholder_value g lib h (r_full_name repo_info)
                (r_default_branch repo_info) fp (the (ph_method ph_def)) (ph_config ph_def) of
           (placeholder_extraction_result, h1) \<Rightarrow>
             (if truthy (per_error placeholder_extraction_result) then
                ((resolved_placeholders,
                  action_log @
                    [''- ERROR: Could not resolve placeholder '' @ quoted (braces nm)
                       @ '' from '' @ quoted fp @ '': ''
                       @ the (per_error placeholder_extraction_result)
                       @ ''. This repository will be skipped.''],
                  False), h1)
              else
                (let v = (case per_value placeholder_extraction_result of
                            None \<Rightarrow> [] | Some s \<Rightarrow> s)
                 in resolve_loop g lib repo_info rest (dict_set nm v resolved_placeholders)
                      (action_log @
                         [''- INFO: Placeholder '' @ quoted (braces nm) @ '' (from ''
                            @ quoted fp @ '') resolved to: '' @ quoted v]) h1))))"

definition resolve_all_placeholders_for_repo ::
  "'h github \<Rightarrow> pylib \<Rightarrow> 'h \<Rightarrow> Repository \<Rightarrow> placeholder_def list \<Rightarrow> string
     \<Rightarrow> ((string \<times> string) list \<times> string list \<times> bool) \<times> 'h" where
  "resolve_all_placeholders_for_repo g lib h repo_info defined_placeholders timestamp_str =
     resolve_loop g lib repo_info defined_placeholders
       (builtin_placeholders repo_info timestamp_str) [] h"

subsection \<open>\_process\_action\_params\<close>

text \<open>
  The parameters are the texts of the form, so the \<^verbatim>\<open>isinstance(value, str)\<close> guards hold.
  The source writes \<^verbatim>\<open>file_path\<close> into the dictionary it was given; the model returns that
  dictionary as a third result.
\<close>

definition reserved_for_logging :: "string list" where
  "reserved_for_logging =
     [''repo_name'', ''repo_full_name'', ''repo_default_branch'', ''timestamp'', ''file_path'']"

fun phase1 ::
  "(string \<times> string) list \<Rightarrow> string list \<Rightarrow> (string \<times> string) list
     \<Rightarrow> (string \<times> string) list \<times> string list" where
  "phase1 resolved_placeholders names [] = ([], [])"
| "phase1 resolved_placeholders names ((key, original_value) # rest) =
     (let new_value = process_placeholders_in_string original_value (map_of resolved_placeholders);
          line =
            (if original_value \<noteq> new_value then
               [''- INFO: Param (Phase 1) '' @ quoted key @ '' ('' @ quoted original_value
                  @ '') processed to: '' @ quoted new_value]
             else if list_ex (\<lambda>nm. contains original_value (braces nm)) names then
               [''- WARNING: Param (Phase 1) '' @ quoted key @ '' ('' @ quoted original_value
                  @ '') might contain an unresolved or mistyped user-defined placeholder.'']
             else [])
      in case phase1 resolved_placeholders names rest of
           (ps, lg) \<Rightarrow> ((key, new_value) # ps, line @ lg))"

fun phase2 ::
  "(string \<times> string) list \<Rightarrow> string list \<Rightarrow> (string \<times> string) list \<Rightarrow> string list
     \<Rightarrow> (string \<times> string) list \<times> string list" where
  "phase2 resolved_placeholders [] processed_params processing_log =
     (processed_params, processing_log)"
| "phase2 resolved_placeholders (key # keys) processed_params processing_log =
     (case map_of processed_params key of
        None \<Rightarrow> phase2 resolved_placeholders keys processed_params processing_log
      | Some original_value \<Rightarrow>
          (let new_value =
                 process_placeholders_in_string original_value (map_of resolved_placeholders)
           in phase2 resolved_placeholders keys (dict_set key new_value processed_params)
                (if original_value \<noteq> new_value then
                   processing_log @
                     [''- INFO: Param (Phase 2) '' @ quoted key @ '' ('' @ quoted original_value
                        @ '') re-processed to: '' @ quoted new_value]
                 else processing_log)))"

definition process_action_params ::
  "(string \<times> string) list \<Rightarrow> (string \<times> string) list \<Rightarrow> string list
     \<Rightarrow> (string \<times> string) list \<times> string list \<times> (string \<times> string) list" where
  "process_action_params action_params_from_form resolved_placeholders
       param_keys_for_phase2_reprocessing =
     (let defined_ph_names_for_logging =
            filter (\<lambda>nm. nm \<notin> set reserved_for_logging) (map fst resolved_placeholders)
      in case phase1 resolved_placeholders defined_ph_names_for_logging action_params_from_form of
           (params1, log1) \<Rightarrow>
             (let processed_file_path_for_messages =
                    dict_get_or params1 ''file_path'' (dict_get_or params1 ''target_file_path'' []);
                  original_file_path_placeholder_value = map_of resolved_placeholders ''file_path'';
                  resolved2 = dict_set ''file_path'' processed_file_path_for_messages
                                resolved_placeholders;
                  log2 =
                    (if original_file_path_placeholder_value
                          \<noteq> Some processed_file_path_for_messages then
                       log1 @
                         [''- INFO: Built-in placeholder '' @ quoted (braces ''file_path'')
                            @ '' (for messages) set to: ''
                            @ quoted processed_file_path_for_messages]
                     else log1)
              in case phase2 resolved2 param_keys_for_phase2_reprocessing params1 log2 of
                   (params2, log3) \<Rightarrow> (params2, log3, resolved2)))"

text \<open>The two log lines of the resolver that the statements below name.\<close>

definition resolve_error_line :: "string \<Rightarrow> string \<Rightarrow> string \<Rightarrow> string" where
  "resolve_error_line nm fp err =
     ''- ERROR: Could not resolve placeholder '' @ quoted (braces nm) @ '' from '' @ quoted fp
       @ '': '' @ err @ ''. This repository will be skipped.''"

definition skipped_line :: "placeholder_def \<Rightarrow> string" where
  "skipped_line d =
     ''- WARNING: Invalid placeholder definition skipped: Name=''
       @ quoted (show_opt (ph_name d)) @ '', Path='' @ quoted (show_opt (ph_file_path d))
       @ '', Method='' @ quoted (show_opt (ph_method d))"

text \<open>The names under which a list of definitions can store a value.\<close>

definition valid_names :: "placeholder_def list \<Rightarrow> string list" where
  "valid_names defs = map (\<lambda>d. the (ph_name d)) (filter (\<lambda>d. \<not> invalid_definition d) defs)"

section \<open>Branch, file and pull-request operations (github\_utils.py)\<close>

subsection \<open>create\_branch\<close>

record BranchOperationResult =
  bo_success :: bool
  bo_message :: "string option"

definition branch_result :: "bool \<Rightarrow> string \<Rightarrow> BranchOperationResult" where
  "branch_result ok msg = \<lparr>bo_success = ok, bo_message = Some msg\<rparr>"

text \<open>
  The outer handlers of \<^verbatim>\<open>create_branch\<close>. \<open>repo\<close> is \<open>None\<close> while \<^verbatim>\<open>g.get_repo\<close> has not
  returned.
\<close>

definition create_branch_outer ::
  "repo_obj option \<Rightarrow> string \<Rightarrow> string \<Rightarrow> exc \<Rightarrow> BranchOperationResult" where
  "create_branch_outer repo repo_full_name new_branch_name_for_log e =
     (let repo_name_for_log = (case repo of None \<Rightarrow> repo_full_name | Some r \<Rightarrow> ro_full_name r)
      in case e of
           UnknownObjectException d \<Rightarrow>
             (if contains (case gd_message d of None \<Rightarrow> [] | Some m \<Rightarrow> m) ''Repository not found''
                 \<or> repo = None
              then branch_result False (''Repository '' @ quoted repo_full_name @ '' not found.'')
              else branch_result False
                     (''Unexpected UnknownObjectException for '' @ quoted repo_name_for_log
                        @ ''. Details: '' @ data_message d))
         | GithubException d \<Rightarrow>
             branch_result False
               (''GitHub API error during branch operation for '' @ quoted new_branch_name_for_log
                  @ '' in '' @ quoted repo_name_for_log @ ''. Details: '' @ data_message d)
         | OtherException t \<Rightarrow>
             branch_result False
               (''An unexpected error occurred while operating on branch ''
                  @ quoted new_branch_name_for_log @ '' in '' @ quoted repo_name_for_log @ ''.''))"

text \<open>The status and data of an exception that \<^verbatim>\<open>except github.GithubException\<close> catches.\<close>

fun github_data :: "exc \<Rightarrow> gh_data option" where
  "github_data (UnknownObjectException d) = Some d"
| "github_data (GithubException d) = Some d"
| "github_data (OtherException t) = None"

definition create_ref_step ::
  "'h github \<Rightarrow> 'h \<Rightarrow> repo_obj \<Rightarrow> string \<Rightarrow> string \<Rightarrow> string \<Rightarrow> BranchOperationResult \<times> 'h" where
  "create_ref_step g h repo repo_full_name new_branch_name_for_log source_branch_sha =
     (case gh_create_git_ref g h repo (''refs/heads/'' @ new_branch_name_for_log)
             source_branch_sha of
        (Inr u, h1) \<Rightarrow>
          (branch_result True
             (''Branch '' @ quoted new_branch_name_for_log @ '' created successfully.''), h1)
      | (Inl e, h1) \<Rightarrow>
          (case github_data e of
             None \<Rightarrow> (create_branch_outer (Some repo) repo_full_name new_branch_name_for_log e, h1)
           | Some d \<Rightarrow>
               (if gd_status d = 422
                   \<and> contains (case gd_message d of None \<Rightarrow> [] | Some m \<Rightarrow> m)
                        ''Reference already exists''
                then
                  (case gh_get_branch g h1 repo new_branch_name_for_log of
                     (Inr sha, h2) \<Rightarrow>
                       (branch_result True
                          (''Using existing branch '' @ quoted new_branch_name_for_log
                             @ '' (confirmed by create_git_ref failure).''), h2)
                   | (Inl e2, h2) \<Rightarrow>
                       (branch_result False
                          (''Branch '' @ quoted new_branch_name_for_log
                             @ '' seems to exist but could not be fetched after create_git_ref reported it exists.''),
                        h2))
                else (create_branch_outer (Some repo) repo_full_name new_branch_name_for_log e,
                      h1))))"

definition source_branch_step ::
  "'h github \<Rightarrow> 'h \<Rightarrow> repo_obj \<Rightarrow> string \<Rightarrow> string \<Rightarrow> string \<Rightarrow> BranchOperationResult \<times> 'h" where
  "source_branch_step g h repo repo_full_name new_branch_name_for_log source_branch_name_for_log =
     (case gh_get_branch g h repo source_branch_name_for_log of
        (Inl (UnknownObjectException d), h1) \<Rightarrow>
          (branch_result False
             (''Source branch '' @ quoted source_branch_name_for_log @ '' not found in ''
                @ quoted repo_full_name @ ''.''), h1)
      | (Inl (GithubException d), h1) \<Rightarrow>
          (branch_result False
             (''GitHub API error getting source branch '' @ quoted source_branch_name_for_log
                @ ''.''), h1)
      | (Inl (OtherException t), h1) \<Rightarrow>
          (branch_result False
             (''Unexpected error getting source branch '' @ quoted source_branch_name_for_log
                @ ''.''), h1)
      | (Inr source_branch_sha, h1) \<Rightarrow>
          (if source_branch_sha = [] then
             (branch_result False
                (''Failed to obtain SHA for source branch '' @ quoted source_branch_name_for_log
                   @ ''.''), h1)
           else create_ref_step g h1 repo repo_full_name new_branch_name_for_log
                  source_branch_sha))"

definition create_branch ::
  "'h github \<Rightarrow> 'h \<Rightarrow> string \<Rightarrow> string \<Rightarrow> string \<Rightarrow> BranchOperationResult \<times> 'h" where
  "create_branch g h repo_full_name new_branch_name source_branch_name =
     (let new_branch_name_for_log =
            (if new_branch_name \<noteq> [] then new_branch_name else ''[BRANCH_NAME_MISSING]'');
          source_branch_name_for_log =
            (if source_branch_name \<noteq> [] then source_branch_name
             else ''[SOURCE_BRANCH_NAME_MISSING]'')
      in case gh_get_repo g h repo_full_name of
           (Inl e, h1) \<Rightarrow> (create_branch_outer None repo_full_name new_branch_name_for_log e, h1)
         | (Inr repo, h1) \<Rightarrow>
             (case gh_get_branch g h1 repo new_branch_name_for_log of
                (Inr sha, h2) \<Rightarrow>
                  (branch_result True
                     (''Using existing branch '' @ quoted new_branch_name_for_log @ ''.''), h2)
              | (Inl (UnknownObjectException d), h2) \<Rightarrow>
                  source_branch_step g h2 repo repo_full_name new_branch_name_for_log
                    source_branch_name_for_log
              | (Inl (GithubException d), h2) \<Rightarrow>
                  (if gd_status d = 404 then
                     source_branch_step g h2 repo repo_full_name new_branch_name_for_log
                       source_branch_name_for_log
                   else
                     (branch_result False
                        (''Error checking for existing branch ''
                           @ quoted new_branch_name_for_log @ ''.''), h2))
              | (Inl (OtherException t), h2) \<Rightarrow>
                  (branch_result False
                     (''Unexpected error checking for existing branch ''
                        @ quoted new_branch_name_for_log @ ''.''), h2)))"

subsection \<open>delete\_file\<close>

record FileOperationStatus =
  fo_success :: bool
  fo_message :: "string option"

definition delete_file ::
  "'h github \<Rightarrow> 'h \<Rightarrow> string \<Rightarrow> string \<Rightarrow> string \<Rightarrow> string \<Rightarrow> string
     \<Rightarrow> FileOperationStatus \<times> 'h" where
  "delete_file g h repo_full_name file_path commit_message branch_name sha =
     (let handler = (\<lambda>e.
            case e of
              UnknownObjectException d \<Rightarrow>
                \<lparr>fo_success = False,
                 fo_message = Some (''Error deleting file '' @ quoted file_path @ '' in ''
                   @ quoted repo_full_name @ '' on branch '' @ quoted branch_name
                   @ ''. Resource not found or SHA mismatch. Details: '' @ data_message d)\<rparr>
            | GithubException d \<Rightarrow>
                \<lparr>fo_success = False,
                 fo_message = Some (''GitHub API error deleting file '' @ quoted file_path
                   @ '' in '' @ quoted repo_full_name @ '': '' @ data_message d
                   @ '' (Status: '' @ show_int (gd_status d) @ '')'')\<rparr>
            | OtherException t \<Rightarrow>
                \<lparr>fo_success = False,
                 fo_message = Some (''An unexpected error occurred while deleting file ''
                   @ quoted file_path @ '': '' @ t)\<rparr>)
      in case gh_get_repo g h repo_full_name of
           (Inl e, h1) \<Rightarrow> (handler e, h1)
         | (Inr repo, h1) \<Rightarrow>
             (case gh_delete_file g h1 repo file_path commit_message sha branch_name of
                (Inl e, h2) \<Rightarrow> (handler e, h2)
              | (Inr u, h2) \<Rightarrow> (\<lparr>fo_success = True, fo_message = None\<rparr>, h2)))"

subsection \<open>create\_pull\_request\<close>

record PullRequestResult =
  pr_html_url :: "string option"
  pr_message :: "string option"

definition already_exists_message :: "string \<Rightarrow> string \<Rightarrow> string" where
  "already_exists_message head_branch base_branch =
     ''Pull Request already exists for branch '' @ quoted head_branch @ '' targeting ''
       @ quoted base_branch @ ''.''"

text \<open>
  \<^verbatim>\<open>error_detail\<close>: the message of the data, or the text of the exception; when the data has
  errors, their non-empty messages joined.
\<close>

definition error_detail_of :: "gh_data \<Rightarrow> string" where
  "error_detail_of d =
     (if gd_errors d \<noteq> [] then
        join ''; '' (filter (\<lambda>m. m \<noteq> [])
                       (map (\<lambda>err. case err of None \<Rightarrow> [] | Some m \<Rightarrow> m) (gd_errors d)))
      else data_message d)"

text \<open>
  The handler \<^verbatim>\<open>except github.GithubException as e\<close> of \<^verbatim>\<open>create_pull_request\<close>. While
  \<^verbatim>\<open>g.get_repo\<close> has not returned, \<^verbatim>\<open>repo\<close> is unbound (\<open>None\<close> here) and the second look for
  an open pull request ends in the inner \<^verbatim>\<open>except\<close>.
\<close>

definition pull_request_handler ::
  "'h github \<Rightarrow> 'h \<Rightarrow> repo_obj option \<Rightarrow> string \<Rightarrow> string \<Rightarrow> string \<Rightarrow> gh_data
     \<Rightarrow> PullRequestResult \<times> 'h" where
  "pull_request_handler g h repo repo_full_name head_branch base_branch d =
     (let error_detail = error_detail_of d;
          api_error =
            \<lparr>pr_html_url = None,
             pr_message = Some (''GitHub API error creating pull request in ''
               @ quoted repo_full_name @ '' (head: '' @ quoted head_branch @ '', base: ''
               @ quoted base_branch @ ''): '' @ error_detail @ '' (Status: ''
               @ show_int (gd_status d) @ '')'')\<rparr>
      in if contains error_detail ''No commits between'' \<and> contains error_detail ''and'' then
           (\<lparr>pr_html_url = None,
             pr_message = Some (''No new commits in '' @ quoted head_branch
               @ '' to create a Pull Request against '' @ quoted base_branch @ ''. ''
               @ error_detail)\<rparr>, h)
         else if contains error_detail ''A pull request already exists'' then
           (case repo of
              None \<Rightarrow> (api_error, h)
            | Some r \<Rightarrow>
                (case gh_get_pulls g h r (ro_owner_login r @ '':'' @ head_branch) base_branch of
                   (Inl e2, h1) \<Rightarrow> (api_error, h1)
                 | (Inr [], h1) \<Rightarrow> (api_error, h1)
                 | (Inr (url # urls), h1) \<Rightarrow>
                     (\<lparr>pr_html_url = Some url,
                       pr_message = Some (already_exists_message head_branch base_branch)\<rparr>,
                      h1)))
         else (api_error, h))"

definition pull_request_failure ::
  "'h github \<Rightarrow> 'h \<Rightarrow> repo_obj option \<Rightarrow> string \<Rightarrow> string \<Rightarrow> string \<Rightarrow> exc
     \<Rightarrow> PullRequestResult \<times> 'h" where
  "pull_request_failure g h repo repo_full_name head_branch base_branch e =
     (case github_data e of
        Some d \<Rightarrow> pull_request_handler g h repo repo_full_name head_branch base_branch d
      | None \<Rightarrow>
          (\<lparr>pr_html_url = None,
            pr_message = Some (''An unexpected error occurred while creating pull request in ''
              @ quoted repo_full_name @ '': '' @ exc_text e)\<rparr>, h))"

definition create_pull_request ::
  "'h github \<Rightarrow> 'h \<Rightarrow> string \<Rightarrow> string \<Rightarrow> string \<Rightarrow> string \<Rightarrow> string
     \<Rightarrow> PullRequestResult \<times> 'h" where
  "create_pull_request g h repo_full_name head_branch base_branch title body =
     (case gh_get_repo g h repo_full_name of
        (Inl e, h1) \<Rightarrow> pull_request_failure g h1 None repo_full_name head_branch base_branch e
      | (Inr repo, h1) \<Rightarrow>
          (case gh_get_pulls g h1 repo (ro_owner_login repo @ '':'' @ head_branch) base_branch of
             (Inl e, h2) \<Rightarrow>
               pull_request_failure g h2 (Some repo) repo_full_name head_branch base_branch e
           | (Inr existing_pulls, h2) \<Rightarrow>
               (let existing_pr_html_url =
                      (case existing_pulls of [] \<Rightarrow> None | url # urls \<Rightarrow> Some url)
                in if truthy existing_pr_html_url then
                     (\<lparr>pr_html_url = existing_pr_html_url,
                       pr_message = Some (already_exists_message head_branch base_branch)\<rparr>, h2)
                   else
                     (case gh_create_pull g h2 repo title body head_branch base_branch of
                        (Inl e, h3) \<Rightarrow>
                          pull_request_failure g h3 (Some repo) repo_full_name head_branch
                            base_branch e
                      | (Inr url, h3) \<Rightarrow>
                          (\<lparr>pr_html_url = Some url, pr_message = None\<rparr>, h3)))))"

subsection \<open>update\_file\<close>

record FileUpdateResult =
  fu_success :: bool
  fu_message :: "string option"
  fu_new_sha :: "string option"

definition update_failure :: "string \<Rightarrow> FileUpdateResult" where
  "update_failure msg = \<lparr>fu_success = False, fu_message = Some msg, fu_new_sha = None\<rparr>"

definition update_success :: "string \<Rightarrow> string \<Rightarrow> FileUpdateResult" where
  "update_success msg sha = \<lparr>fu_success = True, fu_message = Some msg, fu_new_sha = Some sha\<rparr>"

text \<open>
  \<^verbatim>\<open>s.replace(old, new)\<close> and \<^verbatim>\<open>s.replace(old, new, 1)\<close>. An empty \<open>old\<close> matches before
  every character and at the end.
\<close>

fun replace_from :: "string \<Rightarrow> string \<Rightarrow> string \<Rightarrow> string" where
  "replace_from old new [] = []"
| "replace_from old new (c # cs) =
     (if starts_with (c # cs) old then new @ replace_from old new (drop (length old - 1) cs)
      else c # replace_from old new cs)"

definition py_replace :: "string \<Rightarrow> string \<Rightarrow> string \<Rightarrow> string" where
  "py_replace s old new =
     (if old = [] then new @ concat (map (\<lambda>c. c # new) s) else replace_from old new s)"

fun py_replace_first :: "string \<Rightarrow> string \<Rightarrow> string \<Rightarrow> string" where
  "py_replace_first [] old new = (if old = [] then new else [])"
| "py_replace_first (c # cs) old new =
     (if starts_with (c # cs) old then new @ drop (length old) (c # cs)
      else c # py_replace_first cs old new)"

text \<open>
  The first block of \<^verbatim>\<open>update_file\<close>: whether the file is on the target branch, and its
  SHA. \<open>Inl\<close> is an early return.
\<close>

definition check_on_branch ::
  "'h github \<Rightarrow> 'h \<Rightarrow> repo_obj \<Rightarrow> string \<Rightarrow> string
     \<Rightarrow> (FileUpdateResult + string option \<times> bool) \<times> 'h" where
  "check_on_branch g h repo file_path branch_name =
     (case gh_get_contents g h repo file_path branch_name of
        (Inr (CDir items), h1) \<Rightarrow>
          (Inl (update_failure (''Path '' @ quoted file_path @ '' on target branch ''
                  @ quoted branch_name @ '' is a directory.'')), h1)
      | (Inr (CFile file_on_branch_obj), h1) \<Rightarrow>
          (case cf_decoded file_on_branch_obj of
             NoDecodedAttr \<Rightarrow> (Inr (None, False), h1)
           | DecodeRaises t \<Rightarrow>
               (Inl (update_failure (''Unexpected error checking file '' @ quoted file_path
                  @ '' on target branch '' @ quoted branch_name @ '': '' @ t)), h1)
           | _ \<Rightarrow> (Inr (cf_sha file_on_branch_obj, True), h1))
      | (Inl (UnknownObjectException d), h1) \<Rightarrow> (Inr (None, False), h1)
      | (Inl (GithubException d), h1) \<Rightarrow>
          (Inl (update_failure (''Error checking file '' @ quoted file_path
                  @ '' on target branch '' @ quoted branch_name @ '': '' @ data_message d)), h1)
      | (Inl (OtherException t), h1) \<Rightarrow>
          (Inl (update_failure (''Unexpected error checking file '' @ quoted file_path
                  @ '' on target branch '' @ quoted branch_name @ '': '' @ t)), h1))"

text \<open>
  The content that search and replace works on: the file on the target branch when it
  is there, otherwise the file on the default branch. \<open>Inl\<close> is an early return.
\<close>

definition content_for_sr ::
  "'h github \<Rightarrow> 'h \<Rightarrow> repo_obj \<Rightarrow> string \<Rightarrow> string \<Rightarrow> bool \<Rightarrow> string option
     \<Rightarrow> (FileUpdateResult + string) \<times> 'h" where
  "content_for_sr g h repo file_path branch_name file_exists_on_branch
       default_branch_for_sr_fallback =
     (let on_target = ''target branch '' @ quoted branch_name;
          not_fetched = update_failure (''File '' @ quoted file_path
                          @ '' not found or content inaccessible for Search/Replace.'')
      in if file_exists_on_branch then
           (case gh_get_contents g h repo file_path branch_name of
              (Inr (CDir items), h1) \<Rightarrow>
                (Inl (update_failure (''Path '' @ quoted file_path @ '' on '' @ on_target
                        @ '' is a directory.'')), h1)
            | (Inr (CFile file_obj_for_sr), h1) \<Rightarrow>
                (case cf_decoded file_obj_for_sr of
                   Decoded t \<Rightarrow> (Inr t, h1)
                 | NoDecodedAttr \<Rightarrow>
                     (Inl (update_failure (''Could not decode content from '' @ quoted file_path
                             @ '' on '' @ on_target @ ''.'')), h1)
                 | _ \<Rightarrow>
                     (Inl (update_failure (''Error reading file '' @ quoted file_path
                             @ '' from '' @ on_target @ ''.'')), h1))
            | (Inl (UnknownObjectException d), h1) \<Rightarrow>
                (Inl (update_failure (''File '' @ quoted file_path @ '' disappeared from ''
                        @ on_target @ ''.'')), h1)
            | (Inl e, h1) \<Rightarrow>
                (Inl (update_failure (''Error reading file '' @ quoted file_path
                        @ '' from '' @ on_target @ ''.'')), h1))
         else if truthy default_branch_for_sr_fallback then
           (let default_branch = the default_branch_for_sr_fallback in
            case gh_get_contents g h repo file_path default_branch of
              (Inr (CDir items), h1) \<Rightarrow>
                (Inl (update_failure (''Path '' @ quoted file_path @ '' on default branch ''
                        @ quoted default_branch @ '' is a directory.'')), h1)
            | (Inr (CFile file_obj_from_default), h1) \<Rightarrow>
                (case cf_decoded file_obj_from_default of
                   Decoded t \<Rightarrow> (Inr t, h1)
                 | _ \<Rightarrow> (Inl not_fetched, h1))
            | (Inl e, h1) \<Rightarrow> (Inl not_fetched, h1))
         else (Inl not_fetched, h))"

definition search_and_replace ::
  "pylib \<Rightarrow> string \<Rightarrow> string \<Rightarrow> string \<Rightarrow> bool \<Rightarrow> bool \<Rightarrow> FileUpdateResult + string" where
  "search_and_replace lib current_content_str search_string replace_with_string is_regex
       replace_all =
     (if is_regex then
        (case re_sub_count lib search_string replace_with_string current_content_str
                (if replace_all then 0 else 1) of
           SubDone t \<Rightarrow> Inr t
         | SubReError t \<Rightarrow> Inl (update_failure (''Invalid regular expression: '' @ t))
         | SubRaises t \<Rightarrow> Inl (update_failure (''Error during string replacement: '' @ t)))
      else if replace_all then Inr (py_replace current_content_str search_string replace_with_string)
      else Inr (py_replace_first current_content_str search_string replace_with_string))"

text \<open>The retry after a conflict: delete at the current SHA, then create.\<close>

definition force_failure :: "string \<Rightarrow> exc \<Rightarrow> FileUpdateResult" where
  "force_failure file_path e =
     (case github_data e of
        Some d \<Rightarrow>
          update_failure (''Conflict on '' @ quoted file_path
            @ ''. Force update attempt failed: '' @ data_message d)
      | None \<Rightarrow>
          update_failure (''Conflict on '' @ quoted file_path
            @ ''. Force update attempt failed with unexpected error: '' @ exc_text e))"

definition delete_and_recreate ::
  "'h github \<Rightarrow> 'h \<Rightarrow> repo_obj \<Rightarrow> string \<Rightarrow> string \<Rightarrow> string \<Rightarrow> string \<Rightarrow> string option
     \<Rightarrow> FileUpdateResult \<times> 'h" where
  "delete_and_recreate g h repo file_path commit_message branch_name content_to_write_str
       sha_for_delete_attempt =
     (if \<not> truthy sha_for_delete_attempt then
        (update_failure (''Conflict on '' @ quoted file_path
           @ ''. Force update failed: Force Update: SHA for deletion of '' @ quoted file_path
           @ '' is still None after 409. Cannot proceed with delete. Aborting.''), h)
      else
        (case gh_delete_file g h repo file_path
                (''Forcing update: Deleting '' @ quoted file_path @ '' before recreate'')
                (the sha_for_delete_attempt) branch_name of
           (Inl e, h1) \<Rightarrow> (force_failure file_path e, h1)
         | (Inr u, h1) \<Rightarrow>
             (case gh_create_file g h1 repo file_path commit_message content_to_write_str
                     branch_name of
                (Inl e, h2) \<Rightarrow> (force_failure file_path e, h2)
              | (Inr new_forced_sha, h2) \<Rightarrow>
                  (update_success (''File '' @ quoted file_path
                     @ '' force updated (deleted and recreated).'') new_forced_sha, h2))))"

definition force_update_step ::
  "'h github \<Rightarrow> 'h \<Rightarrow> repo_obj \<Rightarrow> string \<Rightarrow> string \<Rightarrow> string \<Rightarrow> string \<Rightarrow> string option
     \<Rightarrow> FileUpdateResult \<times> 'h" where
  "force_update_step g h repo file_path commit_message branch_name content_to_write_str
       actual_existing_file_sha_on_branch =
     (if truthy actual_existing_file_sha_on_branch then
        delete_and_recreate g h repo file_path commit_message branch_name content_to_write_str
          actual_existing_file_sha_on_branch
      else
        (case gh_get_contents g h repo file_path branch_name of
           (Inl e, h1) \<Rightarrow> (force_failure file_path e, h1)
         | (Inr (CDir items), h1) \<Rightarrow>
             (update_failure (''Conflict on '' @ quoted file_path
                @ ''. Force update failed: Force Update: Could not re-fetch current SHA of ''
                @ quoted file_path @ '' for deletion after 409. Aborting force update.''), h1)
         | (Inr (CFile refetched_file_info), h1) \<Rightarrow>
             delete_and_recreate g h1 repo file_path commit_message branch_name
               content_to_write_str (cf_sha refetched_file_info)))"

text \<open>The third block: update at the known SHA, or create.\<close>

definition write_step ::
  "'h github \<Rightarrow> 'h \<Rightarrow> repo_obj \<Rightarrow> string \<Rightarrow> string \<Rightarrow> string \<Rightarrow> string \<Rightarrow> string option
     \<Rightarrow> string \<Rightarrow> bool \<Rightarrow> FileUpdateResult \<times> 'h" where
  "write_step g h repo file_path commit_message branch_name content_to_write_str
       actual_existing_file_sha_on_branch update_mode force_update =
     (case (if truthy actual_existing_file_sha_on_branch then
              (case gh_update_file g h repo file_path commit_message content_to_write_str
                      (the actual_existing_file_sha_on_branch) branch_name of
                 (Inl e, h1) \<Rightarrow> (Inl e, h1)
               | (Inr new_file_sha, h1) \<Rightarrow>
                   (Inr (update_success (''File '' @ quoted file_path
                           @ '' updated successfully.'') new_file_sha), h1))
            else
              (case gh_create_file g h repo file_path commit_message content_to_write_str
                      branch_name of
                 (Inl e, h1) \<Rightarrow> (Inl e, h1)
               | (Inr new_file_sha, h1) \<Rightarrow>
                   (Inr (update_success (''File '' @ quoted file_path
                           @ '' created successfully.'') new_file_sha), h1))) of
        (Inr res, h1) \<Rightarrow> (res, h1)
      | (Inl e, h1) \<Rightarrow>
          (case github_data e of
             None \<Rightarrow>
               (update_failure (''Unexpected error with file '' @ quoted file_path @ '': ''
                  @ exc_text e), h1)
           | Some d \<Rightarrow>
               (if gd_status d = 409 \<and> force_update
                   \<and> update_mode = ''Search and replace string'' then
                  force_update_step g h1 repo file_path commit_message branch_name
                    content_to_write_str actual_existing_file_sha_on_branch
                else
                  (update_failure (''GitHub API error for '' @ quoted file_path
                     @ '' (Status: '' @ show_int (gd_status d) @ ''): '' @ data_message d),
                   h1))))"

definition update_file ::
  "'h github \<Rightarrow> pylib \<Rightarrow> 'h \<Rightarrow> repo_obj \<Rightarrow> string \<Rightarrow> string \<Rightarrow> string \<Rightarrow> string
     \<Rightarrow> string option \<Rightarrow> string \<Rightarrow> string option \<Rightarrow> string option \<Rightarrow> bool \<Rightarrow> bool
     \<Rightarrow> string option \<Rightarrow> bool \<Rightarrow> FileUpdateResult \<times> 'h" where
  "update_file g lib h repo file_path new_content_str commit_message branch_name
       current_sha_from_app update_mode search_string replace_with_string is_regex replace_all
       default_branch_for_sr_fallback force_update =
     (case check_on_branch g h repo file_path branch_name of
        (Inl early, h1) \<Rightarrow> (early, h1)
      | (Inr (actual_existing_file_sha_on_branch, file_exists_on_branch), h1) \<Rightarrow>
          (if update_mode = ''Search and replace string'' then
             (if search_string = None \<or> replace_with_string = None then
                (update_failure
                   (''Search string and replace string must be provided for ''
                      @ quoted ''Search and replace string'' @ '' mode.''), h1)
              else
                (case content_for_sr g h1 repo file_path branch_name file_exists_on_branch
                        default_branch_for_sr_fallback of
                   (Inl early, h2) \<Rightarrow> (early, h2)
                 | (Inr current_content_str, h2) \<Rightarrow>
                     (case search_and_replace lib current_content_str (the search_string)
                             (the replace_with_string) is_regex replace_all of
                        Inl early \<Rightarrow> (early, h2)
                      | Inr content_to_write_str \<Rightarrow>
                          write_step g h2 repo file_path commit_message branch_name
                            content_to_write_str actual_existing_file_sha_on_branch update_mode
                            force_update)))
           else if update_mode = ''Replace entire content'' then
             write_step g h1 repo file_path commit_message branch_name new_content_str
               actual_existing_file_sha_on_branch update_mode force_update
           else (update_failure (''Invalid update mode: '' @ update_mode), h1)))"

subsection \<open>find\_target\_files\<close>

record TargetFilesResult =
  tf_files :: "content_file list"
  tf_error :: "string option"

definition targets_error :: "string \<Rightarrow> TargetFilesResult" where
  "targets_error msg = \<lparr>tf_files = [], tf_error = Some msg\<rparr>"

definition targets_found :: "content_file list \<Rightarrow> TargetFilesResult" where
  "targets_found fs = \<lparr>tf_files = fs, tf_error = None\<rparr>"

text \<open>
  The loop over the search results. It stops once 100 results were fetched; a result
  that is not found on the branch, or whose fetch fails at the host, is dropped; any
  other exception, and the exception that ends the iteration, leave the loop.
\<close>

fun search_loop ::
  "'h github \<Rightarrow> repo_obj \<Rightarrow> string \<Rightarrow> string list \<Rightarrow> exc option \<Rightarrow> nat \<Rightarrow> content_file list
     \<Rightarrow> 'h \<Rightarrow> (exc + content_file list) \<times> 'h" where
  "search_loop g repo target_branch [] ending count found_files_list h =
     (case ending of None \<Rightarrow> (Inr found_files_list, h) | Some e \<Rightarrow> (Inl e, h))"
| "search_loop g repo target_branch (item_path # rest) ending count found_files_list h =
     (if count \<ge> 100 then (Inr found_files_list, h)
      else
        (case gh_get_contents g h repo item_path target_branch of
           (Inr (CFile detailed_content_file), h1) \<Rightarrow>
             search_loop g repo target_branch rest ending (count + 1)
               (found_files_list @ [detailed_content_file]) h1
         | (Inr (CDir items), h1) \<Rightarrow>
             search_loop g repo target_branch rest ending (count + 1) found_files_list h1
         | (Inl (OtherException t), h1) \<Rightarrow> (Inl (OtherException t), h1)
         | (Inl e, h1) \<Rightarrow>
             search_loop g repo target_branch rest ending count found_files_list h1))"

definition search_by_content ::
  "'h github \<Rightarrow> 'h \<Rightarrow> repo_obj \<Rightarrow> string \<Rightarrow> string \<Rightarrow> string \<Rightarrow> string \<Rightarrow> string
     \<Rightarrow> TargetFilesResult \<times> 'h" where
  "search_by_content g h repo repo_full_name target_branch search_dir filename_filter_input
       content_query_input =
     (let final_query =
            join '' '' ([content_query_input, ''repo:'' @ repo_full_name]
                         @ (if search_dir \<noteq> [] then [''path:'' @ search_dir] else [])
                         @ (if filename_filter_input \<noteq> []
                            then [''filename:'' @ filename_filter_input] else []));
          handler = (\<lambda>e.
            case github_data e of
              Some d \<Rightarrow>
                targets_error (''GitHub API error (search_code): ''
                  @ (if gd_errors d \<noteq> [] then
                       join ''; '' (map (\<lambda>err. case err of None \<Rightarrow> [] | Some m \<Rightarrow> m)
                                      (gd_errors d))
                     else data_message d)
                  @ '' (Query: '' @ final_query @ '')'')
            | None \<Rightarrow>
                targets_error (''Unexpected error (search_code): '' @ exc_text e
                  @ '' (Query: '' @ final_query @ '')''))
      in case gh_search_code g h final_query of
           (Inl e, h1) \<Rightarrow> (handler e, h1)
         | (Inr (results, ending), h1) \<Rightarrow>
             (case search_loop g repo target_branch results ending 0 [] h1 of
                (Inl e, h2) \<Rightarrow> (handler e, h2)
              | (Inr found_files_list, h2) \<Rightarrow> (targets_found found_files_list, h2)))"

text \<open>
  The loop over the elements (type, path) of the tree. It stops once 200 files are
  found.
\<close>

definition outside_search_dir :: "string \<Rightarrow> string \<Rightarrow> bool" where
  "outside_search_dir search_dir path =
     ((search_dir \<noteq> [] \<and> \<not> starts_with path (strip_slash search_dir @ ''/''))
      \<and> strip_slash search_dir \<noteq> path
      \<and> \<not> (search_dir = [] \<and> CHR ''/'' \<notin> set path))"

fun tree_loop ::
  "'h github \<Rightarrow> pylib \<Rightarrow> repo_obj \<Rightarrow> string \<Rightarrow> string \<Rightarrow> string \<Rightarrow> (string \<times> string) list
     \<Rightarrow> content_file list \<Rightarrow> 'h \<Rightarrow> (exc + content_file list) \<times> 'h" where
  "tree_loop g lib repo target_branch search_dir filename_filter_input [] found_files_list h =
     (Inr found_files_list, h)"
| "tree_loop g lib repo target_branch search_dir filename_filter_input ((ty, path) # rest)
       found_files_list h =
     (if ty = ''blob'' \<and> \<not> outside_search_dir search_dir path
         \<and> fnmatch lib (last (split_on CHR ''/'' path)) filename_filter_input then
        (case gh_get_contents g h repo path target_branch of
           (Inr c, h1) \<Rightarrow>
             (let found = (case c of CFile content_file_obj \<Rightarrow> found_files_list @ [content_file_obj]
                           | CDir items \<Rightarrow> found_files_list)
              in if length found \<ge> 200 then (Inr found, h1)
                 else tree_loop g lib repo target_branch search_dir filename_filter_input rest
                        found h1)
         | (Inl (OtherException t), h1) \<Rightarrow> (Inl (OtherException t), h1)
         | (Inl e, h1) \<Rightarrow>
             tree_loop g lib repo target_branch search_dir filename_filter_input rest
               found_files_list h1)
      else tree_loop g lib repo target_branch search_dir filename_filter_input rest
             found_files_list h)"

definition search_by_name ::
  "'h github \<Rightarrow> pylib \<Rightarrow> 'h \<Rightarrow> repo_obj \<Rightarrow> string \<Rightarrow> string \<Rightarrow> string
     \<Rightarrow> TargetFilesResult \<times> 'h" where
  "search_by_name g lib h repo target_branch search_dir filename_filter_input =
     (let handler = (\<lambda>e.
            case github_data e of
              Some d \<Rightarrow> targets_error (''GitHub API error getting git tree: '' @ data_message d)
            | None \<Rightarrow> targets_error (''Unexpected error getting git tree: '' @ exc_text e))
      in case gh_get_branch g h repo target_branch of
           (Inl e, h1) \<Rightarrow> (handler e, h1)
         | (Inr branch_commit_sha, h1) \<Rightarrow>
             (case gh_get_git_tree g h1 repo branch_commit_sha of
                (Inl e, h2) \<Rightarrow> (handler e, h2)
              | (Inr [], h2) \<Rightarrow>
                  (targets_error ''Could not retrieve file tree for the repository/branch.'', h2)
              | (Inr tree, h2) \<Rightarrow>
                  (case tree_loop g lib repo target_branch search_dir filename_filter_input tree
                          [] h2 of
                     (Inl e, h3) \<Rightarrow> (handler e, h3)
                   | (Inr found_files_list, h3) \<Rightarrow> (targets_found found_files_list, h3))))"

text \<open>Scenario B: a directory, or the whole repository.\<close>

definition find_in_directory ::
  "'h github \<Rightarrow> pylib \<Rightarrow> 'h \<Rightarrow> repo_obj \<Rightarrow> string \<Rightarrow> string \<Rightarrow> string \<Rightarrow> string \<Rightarrow> string
     \<Rightarrow> TargetFilesResult \<times> 'h" where
  "find_in_directory g lib h repo repo_full_name target_branch target_path_input
       filename_filter_input content_query_input =
     (let search_dir = (if target_path_input \<noteq> [] then strip_slash target_path_input else [])
      in if content_query_input \<noteq> [] then
           search_by_content g h repo repo_full_name target_branch search_dir
             filename_filter_input content_query_input
         else if filename_filter_input \<noteq> [] then
           search_by_name g lib h repo target_branch search_dir filename_filter_input
         else
           (targets_error
              ''Insufficient criteria: Please specify a filename filter or content to search, or an exact file path.'',
            h))"

text \<open>
  \<open>find_target_files\<close> returns \<open>Inl\<close> when an exception leaves the function: in Scenario A
  the call of \<^verbatim>\<open>repo.get_contents\<close> is guarded by handlers for \<^verbatim>\<open>UnknownObjectException\<close> and
  \<^verbatim>\<open>GithubException\<close> only.
\<close>

definition find_target_files ::
  "'h github \<Rightarrow> pylib \<Rightarrow> 'h \<Rightarrow> string \<Rightarrow> string \<Rightarrow> string \<Rightarrow> string \<Rightarrow> string
     \<Rightarrow> (exc + TargetFilesResult) \<times> 'h" where
  "find_target_files g lib h repo_full_name target_branch target_path_input
       filename_filter_input content_query_input =
     (case gh_get_repo g h repo_full_name of
        (Inl (UnknownObjectException d), h1) \<Rightarrow>
          (Inr (targets_error (''Repository '' @ quoted repo_full_name @ '' not found.'')), h1)
      | (Inl (GithubException d), h1) \<Rightarrow>
          (Inr (targets_error (''GitHub API error getting repo '' @ quoted repo_full_name
                  @ '': '' @ data_message d)), h1)
      | (Inl (OtherException t), h1) \<Rightarrow>
          (Inr (targets_error (''Unexpected error getting repo '' @ quoted repo_full_name
                  @ '': '' @ t)), h1)
      | (Inr repo, h1) \<Rightarrow>
          (if target_path_input \<noteq> [] \<and> \<not> ends_with target_path_input ''/'' then
             (case gh_get_contents g h1 repo target_path_input target_branch of
                (Inr (CFile content_item), h2) \<Rightarrow>
                  (if content_query_input \<noteq> [] then
                     (case get_file_content g h2 repo_full_name (cf_path content_item)
                             (Some target_branch) of
                        (file_content_res, h3) \<Rightarrow>
                          (if truthy (fc_error file_content_res) then
                             (Inr (targets_error (''Error reading content of alleged file ''
                                     @ quoted (cf_path content_item) @ '': ''
                                     @ the (fc_error file_content_res))), h3)
                           else
                             (case fc_content file_content_res of
                                None \<Rightarrow> (Inr (targets_found []), h3)
                              | Some content \<Rightarrow>
                                  (if \<not> contains content content_query_input
                                   then (Inr (targets_found []), h3)
                                   else (Inr (targets_found [content_item]), h3)))))
                   else (Inr (targets_found [content_item]), h2))
              | (Inr (CDir items), h2) \<Rightarrow>
                  (case find_in_directory g lib h2 repo repo_full_name target_branch
                          target_path_input filename_filter_input content_query_input of
                     (res, h3) \<Rightarrow> (Inr res, h3))
              | (Inl (UnknownObjectException d), h2) \<Rightarrow>
                  (case find_in_directory g lib h2 repo repo_full_name target_branch
                          target_path_input filename_filter_input content_query_input of
                     (res, h3) \<Rightarrow> (Inr res, h3))
              | (Inl (GithubException d), h2) \<Rightarrow>
                  (Inr (targets_error (''GitHub API error checking path ''
                          @ quoted target_path_input @ '': '' @ data_message d)), h2)
              | (Inl (OtherException t), h2) \<Rightarrow> (Inl (OtherException t), h2))
           else
             (case find_in_directory g lib h1 repo repo_full_name target_branch
                     target_path_input filename_filter_input content_query_input of
                (res, h2) \<Rightarrow> (Inr res, h2))))"

section \<open>The batch executors (action\_processing.py)\<close>

text \<open>
  One entry of \<^verbatim>\<open>batch_action_results\<close>. \<open>ar_pr_url\<close> is \<open>None\<close> both when the dictionary has
  no \<^verbatim>\<open>pr_url\<close> key and when the key holds \<^verbatim>\<open>None\<close>.
\<close>

record ActionResult =
  ar_repo :: string
  ar_success :: bool
  ar_message :: string
  ar_pr_url :: "string option"

definition nl :: string where
  "nl = [CHR 0x0A]"

definition show_bool :: "bool \<Rightarrow> string" where
  "show_bool b = (if b then ''True'' else ''False'')"

definition result_of :: "Repository \<Rightarrow> bool \<Rightarrow> string list \<Rightarrow> ActionResult" where
  "result_of repo_info ok action_log_for_repo =
     \<lparr>ar_repo = r_name repo_info, ar_success = ok, ar_message = join nl action_log_for_repo,
      ar_pr_url = None\<rparr>"

text \<open>
  The forms, as \<^verbatim>\<open>ui_components.py\<close> builds them: every key is present and every text field
  holds a text, so each \<^verbatim>\<open>.get(key, default)\<close> returns the field.
\<close>

record RemoveFileForm =
  rf_file_path :: string
  rf_branch_name :: string
  rf_commit_message :: string
  rf_pr_title :: string
  rf_pr_body :: string

record UpdateFileForm =
  uf_file_path_input :: string
  uf_update_mode :: string
  uf_file_content_area :: string
  uf_search_string_input :: string
  uf_replace_with_string_input :: string
  uf_is_regex_checkbox :: bool
  uf_replace_all_checkbox :: bool
  uf_target_path_input :: string
  uf_filename_filter_input :: string
  uf_content_query_input :: string
  uf_branch_name_input :: string
  uf_commit_message_input :: string
  uf_pr_title_input :: string
  uf_pr_body_input :: string
  uc_force_update :: bool

record AddNewFileForm =
  anf_file_path_input :: string
  anf_file_content_area :: string
  anf_branch_name_input :: string
  anf_commit_message_input :: string
  anf_pr_title_input :: string
  anf_pr_body_input :: string

text \<open>
  The branch step once a repository object is at hand: the branch is there, or it is
  created from the default branch. The result is whether the repository goes on, the log
  and the host state.
\<close>

definition branch_missing ::
  "'h github \<Rightarrow> 'h \<Rightarrow> Repository \<Rightarrow> string \<Rightarrow> string list \<Rightarrow> (bool \<times> string list) \<times> 'h" where
  "branch_missing g h repo_info target_branch_for_action action_log_for_repo =
     (case create_branch g h (r_full_name repo_info) target_branch_for_action
             (r_default_branch repo_info) of
        (branch_op_result, h1) \<Rightarrow>
          ((bo_success branch_op_result,
            action_log_for_repo @
              [''- INFO: Branch '' @ quoted target_branch_for_action
                 @ '' does not exist. Attempting to create it from ''
                 @ quoted (r_default_branch repo_info) @ ''.'',
               ''- INFO: Branch creation op: '' @ show_opt (bo_message branch_op_result)]),
           h1))"

definition branch_check_failed :: "string \<Rightarrow> exc \<Rightarrow> string" where
  "branch_check_failed target_branch_for_action e =
     ''- ERROR: Could not check/create branch '' @ quoted target_branch_for_action @ '': ''
       @ exc_text e"

definition check_git_ref ::
  "'h github \<Rightarrow> 'h \<Rightarrow> Repository \<Rightarrow> repo_obj \<Rightarrow> string \<Rightarrow> string list
     \<Rightarrow> (bool \<times> string list) \<times> 'h" where
  "check_git_ref g h repo_info repo_api target_branch_for_action action_log_for_repo =
     (case gh_get_git_ref g h repo_api (''heads/'' @ target_branch_for_action) of
        (Inr u, h1) \<Rightarrow>
          ((True, action_log_for_repo @
              [''- INFO: Using existing branch '' @ quoted target_branch_for_action @ ''.'']), h1)
      | (Inl (UnknownObjectException d), h1) \<Rightarrow>
          branch_missing g h1 repo_info target_branch_for_action action_log_for_repo
      | (Inl e, h1) \<Rightarrow>
          ((False, action_log_for_repo @ [branch_check_failed target_branch_for_action e]), h1))"

text \<open>The closing of a repository in the update and add executors, after the pull request.\<close>

definition pr_creation_line :: "PullRequestResult \<Rightarrow> string" where
  "pr_creation_line pr_result =
     ''- INFO: PR creation: ''
       @ (if truthy (pr_message pr_result) then the (pr_message pr_result)
          else if truthy (pr_html_url pr_result) then ''Success''
          else ''Failed/Already Exists with no new URL'')"

subsection \<open>execute\_remove\_file\_action\<close>

text \<open>
  The body of the loop over the repositories: it takes \<^verbatim>\<open>batch_action_results\<close> and the host
  state and returns both. Every \<^verbatim>\<open>continue\<close> of the source is a branch that returns.
\<close>

definition remove_pull_request ::
  "'h github \<Rightarrow> 'h \<Rightarrow> Repository \<Rightarrow> string \<Rightarrow> (string \<times> string) list \<Rightarrow> string list
     \<Rightarrow> ActionResult list \<Rightarrow> ActionResult list \<times> 'h" where
  "remove_pull_request g h repo_info branch_to_operate_on processed_params action_log_for_repo
       batch_action_results =
     (case create_pull_request g h (r_full_name repo_info) branch_to_operate_on
             (r_default_branch repo_info) (dict_get_or processed_params ''pr_title'' [])
             (dict_get_or processed_params ''pr_body'' []) of
        (pr_result, h1) \<Rightarrow>
          (let lg = action_log_for_repo
                      @ [''- INFO: PR creation: '' @ show_opt (pr_message pr_result)]
           in if truthy (pr_html_url pr_result) then
                (batch_action_results @
                   [(result_of repo_info True lg)\<lparr>ar_pr_url := pr_html_url pr_result\<rparr>], h1)
              else
                (batch_action_results @
                   [\<lparr>ar_repo = r_name repo_info, ar_success = True,
                     ar_message = join nl lg @
                       (if truthy (pr_message pr_result)
                        then nl @ ''- PR Status: '' @ the (pr_message pr_result)
                        else nl @ ''- WARNING: File operation successful, but PR status unclear (no URL and no message).''),
                     ar_pr_url = None\<rparr>], h1)))"

definition remove_delete ::
  "'h github \<Rightarrow> 'h \<Rightarrow> Repository \<Rightarrow> string \<Rightarrow> string \<Rightarrow> (string \<times> string) list
     \<Rightarrow> string list \<Rightarrow> ActionResult list \<Rightarrow> ActionResult list \<times> 'h" where
  "remove_delete g h repo_info target_file_path branch_to_operate_on processed_params
       action_log_for_repo batch_action_results =
     (let lg0 = action_log_for_repo
                  @ [''- INFO: Attempting to get SHA for file '' @ quoted target_file_path
                       @ '' on branch '' @ quoted branch_to_operate_on @ ''.'']
      in case get_file_content g h (r_full_name repo_info) target_file_path
                (Some branch_to_operate_on) of
           (file_content_res, h1) \<Rightarrow>
             (if truthy (fc_error file_content_res) \<or> \<not> truthy (fc_sha file_content_res) then
                (batch_action_results @
                   [result_of repo_info False
                      (lg0 @ [''- ERROR: Could not get SHA for file '' @ quoted target_file_path
                         @ '': ''
                         @ (if truthy (fc_error file_content_res)
                            then the (fc_error file_content_res) else ''SHA not found'')
                         @ ''. File may not exist on branch '' @ quoted branch_to_operate_on
                         @ '' or path is a directory.''])], h1)
              else
                (let sha = the (fc_sha file_content_res);
                     lg1 = lg0 @ [''- INFO: SHA for '' @ quoted target_file_path @ '' is ''
                                    @ quoted sha @ ''. Proceeding with deletion.'']
                 in case delete_file g h1 (r_full_name repo_info) target_file_path
                           (dict_get_or processed_params ''commit_message'' [])
                           branch_to_operate_on sha of
                      (delete_status, h2) \<Rightarrow>
                        (let lg2 = lg1 @ [''- INFO: File deletion result: ''
                                     @ (if truthy (fo_message delete_status)
                                        then the (fo_message delete_status)
                                        else if fo_success delete_status
                                        then ''Successfully deleted'' else ''Failed'')]
                         in if \<not> fo_success delete_status then
                              (batch_action_results @ [result_of repo_info False lg2], h2)
                            else remove_pull_request g h2 repo_info branch_to_operate_on
                                   processed_params lg2 batch_action_results))))"

definition remove_one ::
  "'h github \<Rightarrow> pylib \<Rightarrow> string \<Rightarrow> placeholder_def list \<Rightarrow> RemoveFileForm \<Rightarrow> Repository
     \<Rightarrow> ActionResult list \<times> 'h \<Rightarrow> ActionResult list \<times> 'h" where
  "remove_one g lib timestamp_str defined_placeholders form repo_info state =
     (case state of
        (batch_action_results, h) \<Rightarrow>
          (let default_branch_name_template = rf_branch_name form;
               lg0 = [''Action: Remove File on repo '' @ r_full_name repo_info
                        @ '' (default branch: '' @ r_default_branch repo_info @ '')'']
           in case resolve_all_placeholders_for_repo g lib h repo_info defined_placeholders
                     timestamp_str of
                ((resolved_ph, ph_log, ph_ok), h1) \<Rightarrow>
                  (if \<not> ph_ok then
                     (batch_action_results @ [result_of repo_info False (lg0 @ ph_log)], h1)
                   else
                     (case process_action_params
                             [(''file_path'', rf_file_path form),
                              (''branch_name'', default_branch_name_template),
                              (''commit_message'', rf_commit_message form),
                              (''pr_title'', rf_pr_title form),
                              (''pr_body'', rf_pr_body form)]
                             resolved_ph
                             [''branch_name'', ''commit_message'', ''pr_title'', ''pr_body''] of
                        (processed_params, params_log, resolved_ph2) \<Rightarrow>
                          (let lg1 = lg0 @ ph_log @ params_log;
                               target_file_path = dict_get_or processed_params ''file_path'' []
                           in if target_file_path = [] then
                                (batch_action_results @
                                   [result_of repo_info False
                                      (lg1 @ [''- ERROR: Processed file path is empty. Skipping repo.''])],
                                 h1)
                              else
                                (let named = dict_get_or processed_params ''branch_name'' [];
                                     fallback = ''remove-file-fallback-'' @ timestamp_str;
                                     target_branch_for_action =
                                       (if strip named = [] then fallback else named);
                                     lg2 = (if strip named = [] then
                                              lg1 @ [''- INFO: Target branch name was empty or invalid, defaulted to ''
                                                       @ quoted fallback @ ''.'']
                                            else lg1)
                                 in case (case gh_get_repo g h1 (r_full_name repo_info) of
                                            (Inr repo_api, h2) \<Rightarrow>
                                              check_git_ref g h2 repo_info repo_api
                                                target_branch_for_action lg2
                                          | (Inl (UnknownObjectException d), h2) \<Rightarrow>
                                              branch_missing g h2 repo_info
                                                target_branch_for_action lg2
                                          | (Inl e, h2) \<Rightarrow>
                                              ((False, lg2 @ [branch_check_failed
                                                                target_branch_for_action e]), h2)) of
                                      ((branch_ok, lg3), h3) \<Rightarrow>
                                        (if \<not> branch_ok then
                                           (batch_action_results @
                                              [result_of repo_info False lg3], h3)
                                         else remove_delete g h3 repo_info target_file_path
                                                target_branch_for_action processed_params lg3
                                                batch_action_results)))))))"

definition execute_remove_file_action ::
  "'h github \<Rightarrow> pylib \<Rightarrow> 'h \<Rightarrow> string \<Rightarrow> Repository list \<Rightarrow> placeholder_def list
     \<Rightarrow> RemoveFileForm \<Rightarrow> ActionResult list \<times> 'h" where
  "execute_remove_file_action g lib h timestamp_str selected_repo_infos defined_placeholders
       action_config_from_form =
     fold (remove_one g lib timestamp_str defined_placeholders action_config_from_form)
       selected_repo_infos ([], h)"

subsection \<open>execute\_update\_file\_action\<close>

text \<open>
  A target of the update: the path and the SHA known to the caller. The source uses
  content files found by \<^verbatim>\<open>find_target_files\<close> or, for a single path, small objects with
  these two attributes.
\<close>

record target_file =
  tg_path :: string
  tg_sha :: "string option"

text \<open>
  How a step of one repository ends: an exception leaves the executor; the repository is
  closed with a result (success flag and log); or the repository goes on with a value
  and the log.
\<close>

datatype 'a step = Escaped exc | Closed bool "string list" | Goes 'a "string list"

definition single_target ::
  "'h github \<Rightarrow> 'h \<Rightarrow> Repository \<Rightarrow> (string \<times> string) list \<Rightarrow> string \<Rightarrow> string list
     \<Rightarrow> target_file list step \<times> 'h" where
  "single_target g h repo_info resolved_ph specific_file_path_from_form action_log_for_repo =
     (let resolved_specific_file_path =
            process_placeholders_in_string specific_file_path_from_form (map_of resolved_ph);
          lg = action_log_for_repo
                 @ [''- INFO: Specific target file path from form ''
                      @ quoted specific_file_path_from_form @ '' resolved to ''
                      @ quoted resolved_specific_file_path @ ''.'']
      in if resolved_specific_file_path = [] then
           (Closed False (lg @ [''- ERROR: Resolved specific file path is empty. Skipping repo.'']),
            h)
         else
           (case get_file_content g h (r_full_name repo_info) resolved_specific_file_path
                   (Some (r_default_branch repo_info)) of
              (file_content_check_result, h1) \<Rightarrow>
                (if truthy (fc_error file_content_check_result)
                    \<and> \<not> contains (lower (the (fc_error file_content_check_result)))
                          ''not found'' then
                   (Goes [\<lparr>tg_path = resolved_specific_file_path,
                            tg_sha = fc_sha file_content_check_result\<rparr>]
                      (lg @ [''- WARNING: Could not get initial content/SHA for ''
                               @ quoted resolved_specific_file_path @ '' (branch: ''
                               @ r_default_branch repo_info @ ''): ''
                               @ the (fc_error file_content_check_result)
                               @ ''. Will proceed assuming creation or targeted branch later.'']),
                    h1)
                 else if truthy (fc_sha file_content_check_result) then
                   (Goes [\<lparr>tg_path = resolved_specific_file_path,
                            tg_sha = fc_sha file_content_check_result\<rparr>]
                      (lg @ [''- INFO: Confirmed '' @ quoted resolved_specific_file_path
                               @ '' exists on default branch. SHA: ''
                               @ the (fc_sha file_content_check_result)
                               @ ''. Update will use target branch.'']), h1)
                 else
                   (Goes [\<lparr>tg_path = resolved_specific_file_path, tg_sha = None\<rparr>]
                      (lg @ [''- INFO: File '' @ quoted resolved_specific_file_path
                               @ '' not found on default branch or no SHA. Will be treated as new/update on target branch.'']),
                    h1))))"

definition multiple_targets ::
  "'h github \<Rightarrow> pylib \<Rightarrow> 'h \<Rightarrow> UpdateFileForm \<Rightarrow> Repository \<Rightarrow> (string \<times> string) list
     \<Rightarrow> string list \<Rightarrow> target_file list step \<times> 'h" where
  "multiple_targets g lib h form repo_info resolved_ph action_log_for_repo =
     (let find_files_target_path =
            process_placeholders_in_string (uf_target_path_input form) (map_of resolved_ph);
          find_files_filename_filter =
            process_placeholders_in_string (uf_filename_filter_input form) (map_of resolved_ph);
          find_files_content_query =
            process_placeholders_in_string (uf_content_query_input form) (map_of resolved_ph);
          lg = action_log_for_repo
                 @ [''- INFO: Finding target files. Path: '' @ quoted find_files_target_path
                      @ '', Filter: '' @ quoted find_files_filename_filter
                      @ '', Content Query: '' @ quoted find_files_content_query @ ''.'']
      in if find_files_filename_filter = [] \<and> find_files_content_query = []
            \<and> strip_slash find_files_target_path = [] then
           (Closed False
              (lg @ [''- ERROR: For multiple file updates, you must specify at least a target path, a filename filter, or a content query. Skipping repo.'']),
            h)
         else
           (case find_target_files g lib h (r_full_name repo_info) (r_default_branch repo_info)
                   find_files_target_path find_files_filename_filter
                   find_files_content_query of
              (Inl e, h1) \<Rightarrow> (Escaped e, h1)
            | (Inr target_files_result, h1) \<Rightarrow>
                (if truthy (tf_error target_files_result) then
                   (Closed False
                      (lg @ [''- ERROR: Failed to find target files: ''
                               @ the (tf_error target_files_result) @ ''. Skipping repo.'']), h1)
                 else if tf_files target_files_result = [] then
                   (Closed True
                      (lg @ [''- INFO: No files found matching criteria. Skipping repo.'']), h1)
                 else
                   (Goes (map (\<lambda>f. \<lparr>tg_path = cf_path f, tg_sha = cf_sha f\<rparr>)
                            (tf_files target_files_result))
                      (lg @ [''- INFO: Found ''
                               @ show_nat (length (tf_files target_files_result))
                               @ '' file(s) to update: ''
                               @ py_repr_str_list (map cf_path (tf_files target_files_result))]),
                    h1))))"

text \<open>
  One pass of the loop over the target files. The state is \<^verbatim>\<open>any_file_updated_in_repo\<close>,
  \<^verbatim>\<open>all_file_ops_successful_in_repo\<close>, the log, \<^verbatim>\<open>per_file_resolved_ph\<close> (which the source
  reads again after the loop) and the host state.
\<close>

definition update_one_file ::
  "'h github \<Rightarrow> pylib \<Rightarrow> UpdateFileForm \<Rightarrow> Repository \<Rightarrow> repo_obj \<Rightarrow> (string \<times> string) list
     \<Rightarrow> string \<Rightarrow> target_file
     \<Rightarrow> (bool \<times> bool \<times> string list \<times> (string \<times> string) list) \<times> 'h
     \<Rightarrow> (bool \<times> bool \<times> string list \<times> (string \<times> string) list) \<times> 'h" where
  "update_one_file g lib form repo_info repo_api resolved_ph branch_to_operate_on
       target_file_obj state =
     (case state of
        ((any_file_updated_in_repo, all_file_ops_successful_in_repo, action_log_for_repo,
          previous_ph), h) \<Rightarrow>
          (let current_file_path = tg_path target_file_obj;
               lg0 = action_log_for_repo
                       @ [''---'',
                          ''- INFO: Processing file: '' @ quoted current_file_path
                            @ '' on branch '' @ quoted branch_to_operate_on];
               per_file_resolved_ph = dict_set ''file_path'' current_file_path resolved_ph;
               final_commit_msg =
                 process_placeholders_in_string (uf_commit_message_input form)
                   (map_of per_file_resolved_ph);
               update_mode = uf_update_mode form;
               is_replace = (update_mode = ''Replace entire content'');
               is_sr = (update_mode = ''Search and replace string'')
           in if \<not> is_replace \<and> \<not> is_sr then
                ((any_file_updated_in_repo, False,
                  lg0 @ [''- ERROR: Unknown update mode '' @ quoted update_mode
                           @ '' for file '' @ quoted current_file_path
                           @ ''. Skipping this file.''],
                  per_file_resolved_ph), h)
              else
                (let content_for_update_str =
                       (if is_replace then
                          process_placeholders_in_string (uf_file_content_area form)
                            (map_of per_file_resolved_ph)
                        else []);
                     search_str =
                       (if is_replace then None
                        else Some (process_placeholders_in_string (uf_search_string_input form)
                                     (map_of per_file_resolved_ph)));
                     replace_str =
                       (if is_replace then None
                        else Some (process_placeholders_in_string
                                     (uf_replace_with_string_input form)
                                     (map_of per_file_resolved_ph)));
                     lg1 =
                       (if is_replace then
                          lg0 @ [''- INFO: Update Mode: Replace entire content. Processed content length: ''
                                   @ show_nat (length content_for_update_str) @ '' chars.'']
                        else
                          lg0 @ [''- INFO: Update Mode: Search/Replace. Search: ''
                                   @ quoted (the search_str) @ '', Replace: ''
                                   @ quoted (the replace_str) @ '', Regex: ''
                                   @ show_bool (uf_is_regex_checkbox form) @ '', All: ''
                                   @ show_bool (uf_replace_all_checkbox form),
                                 ''- INFO: Force update on conflict: ''
                                   @ show_bool (uc_force_update form)]);
                     sha_for_update = tg_sha target_file_obj;
                     lg2 = lg1 @ [''- INFO: SHA for '' @ quoted current_file_path
                                    @ '' (before update on '' @ quoted branch_to_operate_on
                                    @ ''): ''
                                    @ (if truthy sha_for_update then the sha_for_update
                                       else ''None (will be fetched/created)'')]
                 in case update_file g lib h repo_api current_file_path content_for_update_str
                           final_commit_msg branch_to_operate_on sha_for_update update_mode
                           search_str replace_str (uf_is_regex_checkbox form)
                           (uf_replace_all_checkbox form) (Some (r_default_branch repo_info))
                           (if is_sr then uc_force_update form else False) of
                      (update_result, h1) \<Rightarrow>
                        (if fu_success update_result then
                           ((True, all_file_ops_successful_in_repo,
                             lg2 @ [''- SUCCESS: File '' @ quoted current_file_path
                                      @ '' processed. '' @ show_opt (fu_message update_result)
                                      @ '' New SHA: '' @ show_opt (fu_new_sha update_result)],
                             per_file_resolved_ph), h1)
                         else
                           ((any_file_updated_in_repo, False,
                             lg2 @ [''- ERROR: Failed to process file ''
                                      @ quoted current_file_path @ '': ''
                                      @ show_opt (fu_message update_result)],
                             per_file_resolved_ph), h1)))))"

text \<open>After the loop over the files: no pull request when no file was updated.\<close>

definition update_finish ::
  "'h github \<Rightarrow> 'h \<Rightarrow> UpdateFileForm \<Rightarrow> Repository \<Rightarrow> string \<Rightarrow> bool \<Rightarrow> bool \<Rightarrow> string list
     \<Rightarrow> (string \<times> string) list \<Rightarrow> ActionResult list \<Rightarrow> ActionResult list \<times> 'h" where
  "update_finish g h form repo_info branch_to_operate_on any_file_updated_in_repo
       all_file_ops_successful_in_repo action_log_for_repo per_file_resolved_ph
       batch_action_results =
     (let lg0 = action_log_for_repo @ [''---'']
      in if \<not> any_file_updated_in_repo then
           (batch_action_results @
              [result_of repo_info all_file_ops_successful_in_repo
                 (lg0 @ [''- INFO: No files were actually changed in this repository. No PR will be created.''])],
            h)
         else
           (let final_pr_title =
                  process_placeholders_in_string (uf_pr_title_input form)
                    (map_of per_file_resolved_ph);
                final_pr_body =
                  process_placeholders_in_string (uf_pr_body_input form)
                    (map_of per_file_resolved_ph);
                lg1 = lg0 @ [''- INFO: Attempting to create PR from ''
                               @ quoted branch_to_operate_on @ '' to ''
                               @ quoted (r_default_branch repo_info) @ ''. Title: ''
                               @ quoted final_pr_title]
            in case create_pull_request g h (r_full_name repo_info) branch_to_operate_on
                      (r_default_branch repo_info) final_pr_title final_pr_body of
                 (pr_result, h1) \<Rightarrow>
                   (let lg2 = lg1 @ [pr_creation_line pr_result];
                        repo_overall_success =
                          (all_file_ops_successful_in_repo \<and> truthy (pr_html_url pr_result));
                        final_repo_message =
                          join nl lg2 @
                            (if \<not> all_file_ops_successful_in_repo then
                               nl @ ''- WARNING: One or more file operations failed. See logs above.''
                             else if \<not> truthy (pr_html_url pr_result)
                                     \<and> truthy (pr_message pr_result) then
                               nl @ ''- WARNING: File operations successful, but PR issue: ''
                                 @ the (pr_message pr_result)
                             else [])
                    in (batch_action_results @
                          [\<lparr>ar_repo = r_name repo_info, ar_success = repo_overall_success,
                            ar_message = final_repo_message,
                            ar_pr_url = pr_html_url pr_result\<rparr>], h1))))"

text \<open>The branch of the update: its name is resolved without \<open>file_path\<close>.\<close>

definition update_branch ::
  "'h github \<Rightarrow> 'h \<Rightarrow> string \<Rightarrow> UpdateFileForm \<Rightarrow> Repository \<Rightarrow> repo_obj
     \<Rightarrow> (string \<times> string) list \<Rightarrow> string list \<Rightarrow> (string \<times> bool \<times> string list) \<times> 'h" where
  "update_branch g h timestamp_str form repo_info repo_api resolved_ph action_log_for_repo =
     (let base_branch_name_action_part =
            (if strip (uf_file_path_input form) \<noteq> [] then ''update-file'' else ''update-files'');
          default_branch_name_template = uf_branch_name_input form
      in case process_action_params [(''branch_name'', default_branch_name_template)]
                (dict_del ''file_path'' resolved_ph) [''branch_name''] of
           (processed_branch_name_param, bn_log, copy2) \<Rightarrow>
             (let named = dict_get_or processed_branch_name_param ''branch_name''
                            default_branch_name_template;
                  fallback = base_branch_name_action_part @ ''-fallback-'' @ timestamp_str;
                  target_branch_for_action = (if strip named = [] then fallback else named);
                  lg = (if strip named = [] then
                          action_log_for_repo @ bn_log
                            @ [''- INFO: Target branch name resolved to empty, defaulted to ''
                                 @ quoted fallback @ ''.'']
                        else action_log_for_repo @ bn_log)
              in case check_git_ref g h repo_info repo_api target_branch_for_action lg of
                   ((branch_ok, lg1), h1) \<Rightarrow> ((target_branch_for_action, branch_ok, lg1), h1)))"

definition update_one ::
  "'h github \<Rightarrow> pylib \<Rightarrow> string \<Rightarrow> placeholder_def list \<Rightarrow> UpdateFileForm \<Rightarrow> Repository
     \<Rightarrow> ActionResult list \<times> 'h \<Rightarrow> (exc + ActionResult list) \<times> 'h" where
  "update_one g lib timestamp_str defined_placeholders form repo_info state =
     (case state of
        (batch_action_results, h) \<Rightarrow>
          (let lg0 = [''Action: Update/Create File(s) on repo '' @ r_full_name repo_info
                        @ '' (default branch: '' @ r_default_branch repo_info @ '')'']
           in case gh_get_repo g h (r_full_name repo_info) of
                (Inl e, h1) \<Rightarrow>
                  (Inr (batch_action_results @
                          [result_of repo_info False
                             (lg0 @ [''- ERROR: Could not get repository object: ''
                                       @ exc_text e])]), h1)
              | (Inr repo_api, h1) \<Rightarrow>
                  (case resolve_all_placeholders_for_repo g lib h1 repo_info defined_placeholders
                          timestamp_str of
                     ((resolved_ph, ph_log, ph_ok), h2) \<Rightarrow>
                       (if \<not> ph_ok then
                          (Inr (batch_action_results @
                                  [result_of repo_info False (lg0 @ ph_log)]), h2)
                        else
                          (case (if strip (uf_file_path_input form) \<noteq> [] then
                                   single_target g h2 repo_info resolved_ph
                                     (strip (uf_file_path_input form)) (lg0 @ ph_log)
                                 else multiple_targets g lib h2 form repo_info resolved_ph
                                        (lg0 @ ph_log)) of
                             (Escaped e, h3) \<Rightarrow> (Inl e, h3)
                           | (Closed ok lg, h3) \<Rightarrow>
                               (Inr (batch_action_results @ [result_of repo_info ok lg]), h3)
                           | (Goes target_files_to_process lg, h3) \<Rightarrow>
                               (if target_files_to_process = [] then
                                  (Inr (batch_action_results @
                                          [result_of repo_info True
                                             (lg @ [''- INFO: No files to process after resolving paths/filters. Skipping repo.''])]),
                                   h3)
                                else
                                  (case update_branch g h3 timestamp_str form repo_info repo_api
                                          resolved_ph lg of
                                     ((branch_to_operate_on, branch_ok, lg1), h4) \<Rightarrow>
                                       (if \<not> branch_ok then
                                          (Inr (batch_action_results @
                                                  [result_of repo_info False lg1]), h4)
                                        else
                                          (case fold (update_one_file g lib form repo_info
                                                        repo_api resolved_ph branch_to_operate_on)
                                                  target_files_to_process
                                                  ((False, True, lg1, resolved_ph), h4) of
                                             ((any_updated, all_ok, lg2, per_file_resolved_ph),
                                              h5) \<Rightarrow>
                                               (case update_finish g h5 form repo_info
                                                       branch_to_operate_on any_updated all_ok
                                                       lg2 per_file_resolved_ph
                                                       batch_action_results of
                                                  (results, h6) \<Rightarrow> (Inr results, h6)))))))))))"

text \<open>
  The loop over the repositories. An exception that leaves the body leaves the executor:
  the source has no handler around the body, and the results collected so far are not
  returned.
\<close>

fun update_loop ::
  "'h github \<Rightarrow> pylib \<Rightarrow> string \<Rightarrow> placeholder_def list \<Rightarrow> UpdateFileForm \<Rightarrow> Repository list
     \<Rightarrow> ActionResult list \<times> 'h \<Rightarrow> (exc + ActionResult list) \<times> 'h" where
  "update_loop g lib timestamp_str defined_placeholders form [] state =
     (Inr (fst state), snd state)"
| "update_loop g lib timestamp_str defined_placeholders form (repo_info # rest) state =
     (case update_one g lib timestamp_str defined_placeholders form repo_info state of
        (Inl e, h1) \<Rightarrow> (Inl e, h1)
      | (Inr results, h1) \<Rightarrow>
          update_loop g lib timestamp_str defined_placeholders form rest (results, h1))"

definition execute_update_file_action ::
  "'h github \<Rightarrow> pylib \<Rightarrow> 'h \<Rightarrow> string \<Rightarrow> Repository list \<Rightarrow> placeholder_def list
     \<Rightarrow> UpdateFileForm \<Rightarrow> (exc + ActionResult list) \<times> 'h" where
  "execute_update_file_action g lib h timestamp_str selected_repo_infos defined_placeholders
       action_config_from_form =
     update_loop g lib timestamp_str defined_placeholders action_config_from_form
       selected_repo_infos ([], h)"


subsection \<open>execute\_add\_new\_file\_action\<close>

text \<open>
  The branch step of the add executor. When \<^verbatim>\<open>g.get_repo\<close> itself raised
  \<^verbatim>\<open>UnknownObjectException\<close>, the handler finds \<^verbatim>\<open>repo_api is None\<close> and calls \<^verbatim>\<open>g.get_repo\<close> again,
  inside the handler: an exception of that second call leaves the executor.
\<close>

definition add_branch ::
  "'h github \<Rightarrow> 'h \<Rightarrow> Repository \<Rightarrow> string \<Rightarrow> string list \<Rightarrow> repo_obj step \<times> 'h" where
  "add_branch g h repo_info target_branch_for_action action_log_for_repo =
     (case gh_get_repo g h (r_full_name repo_info) of
        (Inr repo_api, h1) \<Rightarrow>
          (case check_git_ref g h1 repo_info repo_api target_branch_for_action
                  action_log_for_repo of
             ((ok, lg), h2) \<Rightarrow> (if ok then Goes repo_api lg else Closed False lg, h2))
      | (Inl (UnknownObjectException d), h1) \<Rightarrow>
          (case gh_get_repo g h1 (r_full_name repo_info) of
             (Inl e, h2) \<Rightarrow> (Escaped e, h2)
           | (Inr repo_api, h2) \<Rightarrow>
               (case branch_missing g h2 repo_info target_branch_for_action
                       action_log_for_repo of
                  ((ok, lg), h3) \<Rightarrow> (if ok then Goes repo_api lg else Closed False lg, h3)))
      | (Inl e, h1) \<Rightarrow>
          (Closed False
             (action_log_for_repo @
                [''- ERROR: Could not get repository object for branch check. Original error: ''
                   @ exc_text e]), h1))"

definition add_finish ::
  "'h github \<Rightarrow> pylib \<Rightarrow> 'h \<Rightarrow> Repository \<Rightarrow> repo_obj \<Rightarrow> string \<Rightarrow> string \<Rightarrow> string
     \<Rightarrow> (string \<times> string) list \<Rightarrow> string list \<Rightarrow> ActionResult list
     \<Rightarrow> ActionResult list \<times> 'h" where
  "add_finish g lib h repo_info repo_api target_file_path new_file_content branch_to_operate_on
       processed_params action_log_for_repo batch_action_results =
     (let lg0 = action_log_for_repo
                  @ [''- INFO: Attempting to add file '' @ quoted target_file_path
                       @ '' on branch '' @ quoted branch_to_operate_on @ ''.'']
      in case update_file g lib h repo_api target_file_path new_file_content
                (dict_get_or processed_params ''commit_message'' []) branch_to_operate_on None
                ''Replace entire content'' None None False True None False of
           (add_file_result, h1) \<Rightarrow>
             (if \<not> fu_success add_file_result then
                (batch_action_results @
                   [result_of repo_info False
                      (lg0 @ [''- ERROR: Failed to add file '' @ quoted target_file_path
                                @ '': '' @ show_opt (fu_message add_file_result)])], h1)
              else
                (let lg1 = lg0 @ [''- SUCCESS: File '' @ quoted target_file_path @ '' added. ''
                                    @ show_opt (fu_message add_file_result) @ '' New SHA: ''
                                    @ show_opt (fu_new_sha add_file_result)]
                 in case create_pull_request g h1 (r_full_name repo_info) branch_to_operate_on
                           (r_default_branch repo_info)
                           (dict_get_or processed_params ''pr_title'' [])
                           (dict_get_or processed_params ''pr_body'' []) of
                      (pr_result, h2) \<Rightarrow>
                        (let lg2 = lg1 @ [pr_creation_line pr_result];
                             repo_overall_success =
                               (fu_success add_file_result \<and> truthy (pr_html_url pr_result));
                             final_repo_message =
                               join nl lg2 @
                                 (if \<not> truthy (pr_html_url pr_result)
                                     \<and> truthy (pr_message pr_result) then
                                    nl @ ''- WARNING: File add successful, but PR issue: ''
                                      @ the (pr_message pr_result)
                                  else [])
                         in (batch_action_results @
                               [\<lparr>ar_repo = r_name repo_info, ar_success = repo_overall_success,
                                 ar_message = final_repo_message,
                                 ar_pr_url = pr_html_url pr_result\<rparr>], h2)))))"

definition add_one ::
  "'h github \<Rightarrow> pylib \<Rightarrow> string \<Rightarrow> placeholder_def list \<Rightarrow> AddNewFileForm \<Rightarrow> Repository
     \<Rightarrow> ActionResult list \<times> 'h \<Rightarrow> (exc + ActionResult list) \<times> 'h" where
  "add_one g lib timestamp_str defined_placeholders form repo_info state =
     (case state of
        (batch_action_results, h) \<Rightarrow>
          (let default_branch_name_template = anf_branch_name_input form;
               lg0 = [''Action: Add New File on repo '' @ r_full_name repo_info
                        @ '' (default branch: '' @ r_default_branch repo_info @ '')'']
           in case resolve_all_placeholders_for_repo g lib h repo_info defined_placeholders
                     timestamp_str of
                ((resolved_ph, ph_log, ph_ok), h1) \<Rightarrow>
                  (if \<not> ph_ok then
                     (Inr (batch_action_results @ [result_of repo_info False (lg0 @ ph_log)]),
                      h1)
                   else
                     (case process_action_params
                             [(''file_path'', anf_file_path_input form),
                              (''file_content'', anf_file_content_area form),
                              (''branch_name'', default_branch_name_template),
                              (''commit_message'', anf_commit_message_input form),
                              (''pr_title'', anf_pr_title_input form),
                              (''pr_body'', anf_pr_body_input form)]
                             resolved_ph
                             [''file_path'', ''file_content'', ''branch_name'',
                              ''commit_message'', ''pr_title'', ''pr_body''] of
                        (processed_params, params_log, resolved_ph2) \<Rightarrow>
                          (let target_file_path = dict_get_or processed_params ''file_path'' [];
                               new_file_content =
                                 dict_get_or processed_params ''file_content'' [];
                               named = dict_get_or processed_params ''branch_name''
                                         default_branch_name_template;
                               fallback = ''add-file-fallback-'' @ timestamp_str;
                               target_branch_for_action =
                                 (if strip named = [] then fallback else named);
                               lg1 = (if strip named = [] then
                                        lg0 @ ph_log @ params_log
                                          @ [''- INFO: Target branch name was empty or invalid, defaulted to ''
                                               @ quoted fallback @ ''.'']
                                      else lg0 @ ph_log @ params_log)
                           in if target_file_path = [] then
                                (Inr (batch_action_results @
                                        [result_of repo_info False
                                           (lg1 @ [''- ERROR: Processed file path is empty. Skipping repo.''])]),
                                 h1)
                              else
                                (case add_branch g h1 repo_info target_branch_for_action lg1 of
                                   (Escaped e, h2) \<Rightarrow> (Inl e, h2)
                                 | (Closed ok lg2, h2) \<Rightarrow>
                                     (Inr (batch_action_results @ [result_of repo_info ok lg2]),
                                      h2)
                                 | (Goes repo_api lg2, h2) \<Rightarrow>
                                     (case add_finish g lib h2 repo_info repo_api
                                             target_file_path new_file_content
                                             target_branch_for_action processed_params lg2
                                             batch_action_results of
                                        (results, h3) \<Rightarrow> (Inr results, h3))))))))"

fun add_loop ::
  "'h github \<Rightarrow> pylib \<Rightarrow> string \<Rightarrow> placeholder_def list \<Rightarrow> AddNewFileForm \<Rightarrow> Repository list
     \<Rightarrow> ActionResult list \<times> 'h \<Rightarrow> (exc + ActionResult list) \<times> 'h" where
  "add_loop g lib timestamp_str defined_placeholders form [] state =
     (Inr (fst state), snd state)"
| "add_loop g lib timestamp_str defined_placeholders form (repo_info # rest) state =
     (case add_one g lib timestamp_str defined_placeholders form repo_info state of
        (Inl e, h1) \<Rightarrow> (Inl e, h1)
      | (Inr results, h1) \<Rightarrow>
          add_loop g lib timestamp_str defined_placeholders form rest (results, h1))"

definition execute_add_new_file_action ::
  "'h github \<Rightarrow> pylib \<Rightarrow> 'h \<Rightarrow> string \<Rightarrow> Repository list \<Rightarrow> placeholder_def list
     \<Rightarrow> AddNewFileForm \<Rightarrow> (exc + ActionResult list) \<times> 'h" where
  "execute_add_new_file_action g lib h timestamp_str selected_repo_infos defined_placeholders
       action_config_from_form =
     add_loop g lib timestamp_str defined_placeholders action_config_from_form
       selected_repo_infos ([], h)"

text \<open>One result more, under the repository's name.\<close>

definition appends_one :: "Repository \<Rightarrow> ActionResult list \<Rightarrow> ActionResult list \<Rightarrow> bool" where
  "appends_one repo_info rs rs' = (\<exists>r. rs' = rs @ [r] \<and> ar_repo r = r_name repo_info)"

section \<open>A scripted host and scripted libraries, for concrete runs\<close>

text \<open>
  The host state of the scripted host is the list of client calls made so far. Every
  branch holds the same files; a file's blob SHA is \<open>sha-\<close> followed by its path.
\<close>

record sim =
  sim_files :: "(string \<times> string) list"
  sim_branch_exists :: bool
  sim_contents_exc :: "exc option"
  sim_create_pull :: "exc + string"
  sim_missing_repos :: "string list"

definition not_found :: gh_data where
  "not_found = \<lparr>gd_status = 404, gd_message = Some ''Not Found'', gd_errors = [],
                 gd_text = ''404 Not Found''\<rparr>"

definition sim_github :: "sim \<Rightarrow> string list github" where
  "sim_github s =
     \<lparr>gh_get_repo = (\<lambda>h n.
        (if n \<in> set (sim_missing_repos s) then Inl (UnknownObjectException not_found)
         else Inr \<lparr>ro_full_name = n, ro_default_branch = Some ''main'',
                    ro_owner_login = ''acme''\<rparr>,
         h @ [''get_repo''])),
      gh_get_git_ref = (\<lambda>h repo r.
        (if sim_branch_exists s then Inr () else Inl (UnknownObjectException not_found),
         h @ [''get_git_ref''])),
      gh_get_contents = (\<lambda>h repo path r.
        (case sim_contents_exc s of
           Some e \<Rightarrow> Inl e
         | None \<Rightarrow>
             (case map_of (sim_files s) path of
                None \<Rightarrow> Inl (UnknownObjectException not_found)
              | Some c \<Rightarrow>
                  Inr (CFile \<lparr>cf_path = path, cf_sha = Some (''sha-'' @ path),
                              cf_type = ''file'', cf_decoded = Decoded c\<rparr>)),
         h @ [''get_contents''])),
      gh_get_branch = (\<lambda>h repo n. (Inr ''head'', h @ [''get_branch''])),
      gh_create_git_ref = (\<lambda>h repo r sha. (Inr (), h @ [''create_git_ref''])),
      gh_delete_file = (\<lambda>h repo path msg sha br. (Inr (), h @ [''delete_file''])),
      gh_update_file = (\<lambda>h repo path msg content sha br.
        (Inr ''new'', h @ [''update_file '' @ path @ '' '' @ content])),
      gh_create_file = (\<lambda>h repo path msg content br.
        (Inr ''new'', h @ [''create_file '' @ path @ '' '' @ content])),
      gh_get_pulls = (\<lambda>h repo hd bs. (Inr [], h @ [''get_pulls''])),
      gh_create_pull = (\<lambda>h repo title body hd bs. (sim_create_pull s, h @ [''create_pull''])),
      gh_search_code = (\<lambda>h q. (Inr ([], None), h @ [''search_code''])),
      gh_get_git_tree = (\<lambda>h repo sha. (Inr [], h @ [''get_git_tree'']))\<rparr>"

definition sim_lib :: "load_result \<Rightarrow> re_result \<Rightarrow> pylib" where
  "sim_lib doc m =
     \<lparr>json_loads = (\<lambda>s. doc), yaml_safe_load = (\<lambda>s. doc), re_search = (\<lambda>p s. m),
      re_sub_count = (\<lambda>p r s n. SubDone s), fnmatch = (\<lambda>n p. True)\<rparr>"

definition one_file :: sim where
  "one_file = \<lparr>sim_files = [(''f.yml'', ''text'')], sim_branch_exists = True,
               sim_contents_exc = None, sim_create_pull = Inr ''https://pr/1'',
               sim_missing_repos = []\<rparr>"

definition demo_repo :: Repository where
  "demo_repo = \<lparr>r_name = ''demo'', r_full_name = ''acme/demo'', r_html_url = ''https://h/demo'',
                r_updated_at = ''N/A'', r_default_branch = ''main''\<rparr>"

definition no_config :: extraction_config where
  "no_config = \<lparr>cfg_pattern = None, cfg_group_index = None, cfg_jsonpath_expression = None,
                cfg_yaml_path = YamlPathAbsent\<rparr>"

definition regex_def :: "string \<Rightarrow> string \<Rightarrow> int \<Rightarrow> placeholder_def" where
  "regex_def nm fp i =
     \<lparr>ph_name = Some nm, ph_file_path = Some fp, ph_method = Some ''Regex'',
      ph_config = no_config\<lparr>cfg_pattern := Some ''(a)|(b)'', cfg_group_index := Some i\<rparr>\<rparr>"

definition two_groups :: pylib where
  "two_groups = sim_lib (Loaded YNull) (ReMatch ''a'' [Some ''a'', None])"


definition no_commits :: exc where
  "no_commits = GithubException \<lparr>gd_status = 422, gd_message = Some ''Validation Failed'',
      gd_errors = [Some ''No commits between main and fix''],
      gd_text = ''422 Validation Failed''\<rparr>"

definition quiet_host :: sim where
  "quiet_host = one_file\<lparr>sim_create_pull := Inl no_commits\<rparr>"

definition update_form :: UpdateFileForm where
  "update_form =
     \<lparr>uf_file_path_input = ''f.yml'', uf_update_mode = ''Replace entire content'',
      uf_file_content_area = ''new'', uf_search_string_input = [],
      uf_replace_with_string_input = [], uf_is_regex_checkbox = False,
      uf_replace_all_checkbox = True, uf_target_path_input = [],
      uf_filename_filter_input = [], uf_content_query_input = [],
      uf_branch_name_input = ''fix'', uf_commit_message_input = ''Update {{file_path}}'',
      uf_pr_title_input = ''Update {{file_path}}'', uf_pr_body_input = ''body'',
      uc_force_update = False\<rparr>"

definition sr_form :: UpdateFileForm where
  "sr_form =
     update_form\<lparr>uf_file_path_input := [], uf_update_mode := ''Search and replace string'',
       uf_search_string_input := ''zzz'', uf_replace_with_string_input := ''y'',
       uf_target_path_input := ''f.yml'', uf_filename_filter_input := ''*.yml''\<rparr>"

text \<open>
  The update form submitted with an empty file path, search and replace selected: the
  three fields that locate files are empty, as in every form that \<^verbatim>\<open>render_update_file_form\<close>
  builds, and so is the content area, which belongs to the other mode.
\<close>

definition multi_form :: UpdateFileForm where
  "multi_form =
     update_form\<lparr>uf_file_path_input := [], uf_update_mode := ''Search and replace string'',
       uf_file_content_area := [], uf_search_string_input := ''zzz'',
       uf_replace_with_string_input := ''y''\<rparr>"

text \<open>The same form with the path of the one file of the scripted host.\<close>

definition single_form :: UpdateFileForm where
  "single_form = multi_form\<lparr>uf_file_path_input := ''f.yml''\<rparr>"

text \<open>An integer of 4301 digits, and a document that holds it.\<close>

definition huge :: int where
  "huge = 10 ^ 4300"

definition huge_doc :: yaml where
  "huge_doc = YDict [(KStr ''a'', YInt huge), (KStr ''b'', YInt 7)]"

definition add_form :: AddNewFileForm where
  "add_form =
     \<lparr>anf_file_path_input = ''n.txt'', anf_file_content_area = ''new'',
      anf_branch_name_input = ''fix'', anf_commit_message_input = ''Add {{file_path}}'',
      anf_pr_title_input = ''Add {{file_path}}'', anf_pr_body_input = ''body''\<rparr>"

definition remove_form :: RemoveFileForm where
  "remove_form =
     \<lparr>rf_file_path = ''f.yml'', rf_branch_name = ''fix'',
      rf_commit_message = ''Remove {{file_path}}'', rf_pr_title = ''Remove {{file_path}}'',
      rf_pr_body = ''body''\<rparr>"

definition gone_repo :: Repository where
  "gone_repo = demo_repo\<lparr>r_name := ''gone'', r_full_name := ''acme/gone''\<rparr>"

definition gone_host :: sim where
  "gone_host = one_file\<lparr>sim_missing_repos := [''acme/gone'']\<rparr>"

definition timeout_host :: sim where
  "timeout_host = one_file\<lparr>sim_contents_exc := Some (OtherException ''timeout'')\<rparr>"

text \<open>What a result says, without its log.\<close>

definition summary :: "ActionResult \<Rightarrow> string \<times> bool \<times> string option" where
  "summary r = (ar_repo r, ar_success r, ar_pr_url r)"

section \<open>The substitution engine\<close>

subsection \<open>The scanner against the pattern\<close>

lemma close_token_shape: "close_token s = Some rest \<longleftrightarrow> s = ''}}'' @ rest"
  by (induction s rule: close_token.induct) auto

lemma match_token_shape:
  assumes "match_token s = Some (nm, rest)"
  shows "\<exists>w1 w2. s = ''{{'' @ w1 @ nm @ w2 @ ''}}'' @ rest \<and> list_all is_space w1
           \<and> list_all is_space w2 \<and> nm \<noteq> [] \<and> list_all name_char nm"
using assms proof (induction s rule: match_token.induct)
  case (1 a b r)
  define r1 where "r1 = dropWhile is_space r"
  define r2 where "r2 = dropWhile name_char r1"
  define r3 where "r3 = dropWhile is_space r2"
  from 1 have ab: "a = CHR ''{''" "b = CHR ''{''"
    by (auto split: if_splits)
  from 1 have nm: "nm = takeWhile name_char r1" "nm \<noteq> []"
    and cl: "close_token r3 = Some rest"
    by (auto simp: Let_def r1_def r2_def r3_def split: if_splits option.splits)
  have r3: "r3 = ''}}'' @ rest" using cl by (simp add: close_token_shape)
  have "r = takeWhile is_space r @ r1" by (simp add: r1_def)
  moreover have "r1 = nm @ r2" by (simp add: nm r2_def)
  moreover have "r2 = takeWhile is_space r2 @ r3" by (simp add: r3_def)
  ultimately have "a # b # r =
      ''{{'' @ takeWhile is_space r @ nm @ takeWhile is_space r2 @ ''}}'' @ rest"
    using ab r3 by simp
  moreover have "list_all is_space (takeWhile is_space r)"
    "list_all is_space (takeWhile is_space r2)" "list_all name_char nm"
    by (auto simp: list_all_iff nm dest: set_takeWhileD)
  ultimately show ?case using nm(2) by blast
qed simp_all

lemma match_token_complete:
  assumes "list_all is_space w1" "list_all is_space w2" "nm \<noteq> []" "list_all name_char nm"
  shows "match_token (''{{'' @ w1 @ nm @ w2 @ ''}}'' @ rest) = Some (nm, rest)"
proof -
  obtain n nm' where n: "nm = n # nm'" using assms(3) by (cases nm) auto
  have nsp: "\<not> is_space n" using assms(4) n by (simp add: name_char_def)
  have d1: "dropWhile is_space (w1 @ nm @ w2 @ ''}}'' @ rest) = nm @ w2 @ ''}}'' @ rest"
    using assms(1) nsp n by (simp add: list_all_iff dropWhile_append2)
  have stop_t: "takeWhile name_char (w2 @ ''}}'' @ rest) = []"
    using assms(2) by (cases w2) (auto simp: name_char_def)
  have t2: "takeWhile name_char (nm @ w2 @ ''}}'' @ rest) = nm"
    using assms(4) stop_t by (simp add: list_all_iff takeWhile_append2)
  have stop_d: "dropWhile name_char (w2 @ ''}}'' @ rest) = w2 @ ''}}'' @ rest"
    using assms(2) by (cases w2) (auto simp: name_char_def)
  have d2: "dropWhile name_char (nm @ w2 @ ''}}'' @ rest) = w2 @ ''}}'' @ rest"
    using assms(4) stop_d by (simp add: list_all_iff dropWhile_append2)
  have sp: "\<not> is_space CHR ''}''" by (simp add: is_space_def)
  have d3: "dropWhile is_space (w2 @ ''}}'' @ rest) = ''}}'' @ rest"
    using assms(2) sp by (simp add: list_all_iff dropWhile_append2)
  show ?thesis
    using d1 t2 d2 d3 assms(3) by (simp add: Let_def)
qed

text \<open>
  The pattern matches at the start of \<open>s\<close> exactly when \<open>match_token\<close> succeeds, and any
  two ways of reading a prefix of \<open>s\<close> as a token give the same name and the same rest.
\<close>

lemma match_token_iff:
  "match_token s = Some (nm, rest) \<longleftrightarrow>
     (\<exists>w1 w2. s = ''{{'' @ w1 @ nm @ w2 @ ''}}'' @ rest \<and> list_all is_space w1
        \<and> list_all is_space w2 \<and> nm \<noteq> [] \<and> list_all name_char nm)"
  using match_token_shape match_token_complete by blast

lemma match_token_text:
  assumes "match_token s = Some (nm, rest)"
  shows "matched_text s rest @ rest = s"
proof -
  obtain w1 w2 where "s = ''{{'' @ w1 @ nm @ w2 @ ''}}'' @ rest"
    using match_token_shape [OF assms] by blast
  then have "s = (''{{'' @ w1 @ nm @ w2 @ ''}}'') @ rest" by simp
  then show ?thesis
    unfolding matched_text_def
    by (metis append_eq_conv_conj append_take_drop_id length_append add_diff_cancel_right')
qed

subsection \<open>Substitution as a rendering of the scan\<close>

lemma scan_text: "concat (map piece_text (scan t)) = t"
proof (induction t rule: scan.induct)
  case 1
  show ?case by simp
next
  case (2 c cs)
  show ?case
  proof (cases "match_token (c # cs)")
    case None
    with 2 show ?thesis by simp
  next
    case (Some p)
    obtain nm rest where p: "p = (nm, rest)" by (cases p)
    have ih: "concat (map piece_text (scan rest)) = rest"
      using 2(2) Some p by simp
    show ?thesis using Some p ih match_token_text [of "c # cs" nm rest] by simp
  qed
qed

lemma sub_render: "re_sub_placeholders m t = concat (map (render m) (scan t))"
proof (induction t rule: scan.induct)
  case 1
  show ?case by simp
next
  case (2 c cs)
  show ?case
  proof (cases "match_token (c # cs)")
    case None
    with 2 show ?thesis by simp
  next
    case (Some p)
    obtain nm rest where p: "p = (nm, rest)" by (cases p)
    show ?thesis
      using 2(2) Some p by (simp add: replace_match_def split: option.splits)
  qed
qed

lemma render_unknown: "unknown_piece m p \<Longrightarrow> render m p = piece_text p"
  by (cases p) auto

lemma sub_fixed:
  assumes "list_all (unknown_piece m) (scan t)"
  shows "process_placeholders_in_string t m = t"
proof -
  have "map (render m) (scan t) = map piece_text (scan t)"
    using assms by (simp add: list_all_iff render_unknown)
  then have "concat (map (render m) (scan t)) = concat (map piece_text (scan t))"
    by (rule arg_cong)
  then show ?thesis
    by (simp only: process_placeholders_in_string_def sub_render scan_text)
qed

text \<open>
  C7. The tokens of a text are the matches that the left-to-right scan finds. A token
  whose name is not a key of the map stands in the result exactly as it stands in the
  text, between the renderings of the pieces before it and after it.
\<close>

theorem c7_unknown_token_preserved:
  assumes "scan t = ps @ Tok nm raw # qs" and "m nm = None"
  shows "t = concat (map piece_text ps) @ raw @ concat (map piece_text qs) \<and>
         process_placeholders_in_string t m =
           concat (map (render m) ps) @ raw @ concat (map (render m) qs)"
proof
  have "concat (map piece_text (scan t)) = t" by (rule scan_text)
  then show "t = concat (map piece_text ps) @ raw @ concat (map piece_text qs)"
    using assms(1) by simp
  show "process_placeholders_in_string t m =
          concat (map (render m) ps) @ raw @ concat (map (render m) qs)"
    using assms by (simp add: process_placeholders_in_string_def sub_render)
qed

theorem c7_unknown_token_preserved_witness:
  "scan ''a{{x}}{{ y }}'' = [Lit CHR ''a'', Tok ''x'' ''{{x}}''] @ Tok ''y'' ''{{ y }}'' # [] \<and>
   [''x'' \<mapsto> ''1''] ''y'' = None \<and>
   process_placeholders_in_string ''a{{x}}{{ y }}'' [''x'' \<mapsto> ''1''] = ''a1{{ y }}''"
proof -
  have s: "scan ''a{{x}}{{ y }}'' = [Lit CHR ''a'', Tok ''x'' ''{{x}}''] @ Tok ''y'' ''{{ y }}'' # []"
    by (simp add: matched_text_def is_space_def name_char_def)
  have n: "[''x'' \<mapsto> ''1''] ''y'' = None" by simp
  show ?thesis
    using c7_unknown_token_preserved
      [of "''a{{x}}{{ y }}''" "[Lit CHR ''a'', Tok ''x'' ''{{x}}'']" "''y''" "''{{ y }}''" "[]"
        "[''x'' \<mapsto> ''1'']"] s n
    by simp
qed

text \<open>
  C6, as the code has it. Substitution is one pass and a substituted value is not scanned
  again, so a second pass rewrites exactly the known tokens of the first result: when the
  first result holds no token whose name is a key of the map, the second pass changes
  nothing.
\<close>

theorem c6_idempotent_when_result_has_no_known_token:
  assumes "list_all (unknown_piece m) (scan (process_placeholders_in_string t m))"
  shows "process_placeholders_in_string (process_placeholders_in_string t m) m =
         process_placeholders_in_string t m"
  using assms by (rule sub_fixed)

theorem c6_idempotent_witness:
  "list_all (unknown_piece [''a'' \<mapsto> ''x''])
     (scan (process_placeholders_in_string ''{{a}}{{b}}'' [''a'' \<mapsto> ''x''])) \<and>
   process_placeholders_in_string
     (process_placeholders_in_string ''{{a}}{{b}}'' [''a'' \<mapsto> ''x'']) [''a'' \<mapsto> ''x''] =
   ''x{{b}}''"
proof -
  have v: "process_placeholders_in_string ''{{a}}{{b}}'' [''a'' \<mapsto> ''x''] = ''x{{b}}''"
    by (simp add: process_placeholders_in_string_def replace_match_def matched_text_def
        is_space_def name_char_def)
  have h: "list_all (unknown_piece [''a'' \<mapsto> ''x''])
     (scan (process_placeholders_in_string ''{{a}}{{b}}'' [''a'' \<mapsto> ''x'']))"
    unfolding v by (simp add: matched_text_def is_space_def name_char_def)
  show ?thesis
    using c6_idempotent_when_result_has_no_known_token [OF h] h v by simp
qed

text \<open>
  The property as the specification words it fails in both directions. With the text
  \<open>{{x{{ b }}}}\<close> and the brace-free values \<open>b \<mapsto> y\<close>, \<open>xy \<mapsto> Z\<close> the condition holds, yet the
  first pass gives \<open>{{xy}}\<close> and the second \<open>Z\<close>. With the text \<open>{{a}}\<close> and the value
  \<open>a \<mapsto> {{a}}\<close> the condition fails, yet both passes give \<open>{{a}}\<close>.
\<close>

theorem c6_spec_condition_counterexample:
  "spec_idempotence_condition ''{{x{{ b }}}}'' [''b'' \<mapsto> ''y'', ''xy'' \<mapsto> ''Z''] \<and>
   process_placeholders_in_string ''{{x{{ b }}}}'' [''b'' \<mapsto> ''y'', ''xy'' \<mapsto> ''Z''] = ''{{xy}}'' \<and>
   process_placeholders_in_string ''{{xy}}'' [''b'' \<mapsto> ''y'', ''xy'' \<mapsto> ''Z''] = ''Z'' \<and>
   \<not> spec_idempotence_condition ''{{a}}'' [''a'' \<mapsto> ''{{a}}''] \<and>
   process_placeholders_in_string ''{{a}}'' [''a'' \<mapsto> ''{{a}}''] = ''{{a}}''"
  by (simp add: spec_idempotence_condition_def contains_token_def
      process_placeholders_in_string_def replace_match_def matched_text_def
      is_space_def name_char_def)

section \<open>Extraction and resolution\<close>

lemma dict_set_map_of: "map_of (dict_set k v d) = (map_of d)(k \<mapsto> v)"
  by (induction d) (auto simp: fun_eq_iff)


lemma extract_after_fetch:
  assumes "get_file_content g h repo fp (Some br) = (fc, h1)" and "\<not> truthy (fc_error fc)"
    and "fc_content fc = Some content"
    and "extraction_logic lib content fp method cfg = (ev, err)"
  shows "extract_placeholder_value g lib h repo br fp method cfg =
     (if truthy err then \<lparr>per_value = None, per_error = err\<rparr>
      else if ev = YNull then \<lparr>per_value = None, per_error = None\<rparr>
      else \<lparr>per_value = Some (py_str ev), per_error = None\<rparr>, h1)"
  using assms by (simp add: extract_placeholder_value_def)


text \<open>
  C10. With the method \<open>Regex\<close>, when the pattern matches, the group index is within
  bounds and the selected group took no part in the match, the extractor returns no value
  and no error, and the resolver stores the empty text under the placeholder's name.
\<close>

theorem c10_unmatched_group_is_no_value:
  assumes "get_file_content g h (r_full_name repo_info) fp (Some (r_default_branch repo_info)) = (fc, h1)"
    and "\<not> truthy (fc_error fc)" and "fc_content fc = Some content"
    and "cfg_pattern cfg = Some pattern" and "pattern \<noteq> []"
    and "re_search lib pattern content = ReMatch whole groups"
    and "cfg_group_index cfg = Some i" and "0 < i" and "i \<le> int (length groups)"
    and "groups ! (nat i - 1) = None"
    and "nm \<noteq> []" and "fp \<noteq> []"
  shows "extract_placeholder_value g lib h (r_full_name repo_info) (r_default_branch repo_info)
             fp ''Regex'' cfg = (\<lparr>per_value = None, per_error = None\<rparr>, h1) \<and>
         resolve_loop g lib repo_info
             [\<lparr>ph_name = Some nm, ph_file_path = Some fp, ph_method = Some ''Regex'',
               ph_config = cfg\<rparr>] resolved action_log h =
           ((dict_set nm [] resolved,
             action_log @ [''- INFO: Placeholder '' @ quoted (braces nm) @ '' (from ''
                            @ quoted fp @ '') resolved to: '' @ quoted []],
             True), h1)"
proof -
  have "extraction_logic lib content fp ''Regex'' cfg = (YNull, None)"
    using assms(4-10) by (simp add: extraction_logic_def Let_def)
  from extract_after_fetch [OF assms(1-3) this]
  have ex: "extract_placeholder_value g lib h (r_full_name repo_info) (r_default_branch repo_info)
             fp ''Regex'' cfg = (\<lparr>per_value = None, per_error = None\<rparr>, h1)"
    by simp
  then show ?thesis
    using assms(11,12) by (simp add: invalid_definition_def Let_def)
qed

lemma resolve_loop_append:
  "resolve_loop g lib repo_info (xs @ ys) r l h =
     (case resolve_loop g lib repo_info xs r l h of
        ((r1, l1, ok), h1) \<Rightarrow>
          if ok then resolve_loop g lib repo_info ys r1 l1 h1 else ((r1, l1, ok), h1))"
proof (induction xs arbitrary: r l h)
  case Nil
  show ?case by simp
next
  case (Cons d xs)
  show ?case
    by (simp add: Cons.IH Let_def split: prod.splits)
qed

lemma sim_fetch:
  "get_file_content (sim_github one_file) h ''acme/demo'' ''f.yml'' (Some ''main'') =
     (\<lparr>fc_content = Some ''text'', fc_sha = Some ''sha-f.yml'',
       fc_default_branch_name = Some ''main'', fc_error = None\<rparr>,
      h @ [''get_repo'', ''get_contents''])"
  by (simp add: get_file_content_def sim_github_def one_file_def)




text \<open>
  C4. A single candidate path \<open>a\<close> against \<open>{a: null}\<close> resolves, without error, to
  \<^verbatim>\<open>None\<close>; the extractor nevertheless returns an error text, not the result without
  value and without error.
\<close>

theorem c4_null_values_give_error:
  "extract_placeholder_value (sim_github one_file)
     (sim_lib (Loaded (YDict [(KStr ''a'', YNull)])) ReNoMatch) []
     ''acme/demo'' ''main'' ''f.yml'' ''YAML Path''
     (no_config\<lparr>cfg_yaml_path := YamlPathList [''a'']\<rparr>) =
   (\<lparr>per_value = None,
     per_error = Some (''None of the provided YAML paths yielded a non-null value from ''
        @ quoted ''f.yml'' @ ''. Tried: ['' @ quoted ''a'' @ '']'')\<rparr>,
    [''get_repo'', ''get_contents''])
   \<and> get_value_from_path (YDict [(KStr ''a'', YNull)]) ''a'' = (YNull, None)"
  by (simp add: extract_placeholder_value_def sim_fetch [of "[]", simplified]
      extraction_logic_def sim_lib_def no_config_def list_of_yaml_paths_def strip_def
      is_space_def get_value_from_path_def Let_def py_repr_str_list_def py_repr_str_def
      repr_char_def quoted_def sq_def)

theorem c10_witness:
  "extract_placeholder_value (sim_github one_file) two_groups [] ''acme/demo'' ''main''
       ''f.yml'' ''Regex'' (ph_config (regex_def ''v'' ''f.yml'' 2)) =
     (\<lparr>per_value = None, per_error = None\<rparr>, [''get_repo'', ''get_contents'']) \<and>
   map_of (fst (fst (resolve_loop (sim_github one_file) two_groups demo_repo
       [regex_def ''v'' ''f.yml'' 2] [] [] []))) ''v'' = Some []"
proof -
  have 1: "get_file_content (sim_github one_file) [] (r_full_name demo_repo) ''f.yml''
       (Some (r_default_branch demo_repo)) =
     (\<lparr>fc_content = Some ''text'', fc_sha = Some ''sha-f.yml'',
       fc_default_branch_name = Some ''main'', fc_error = None\<rparr>, [''get_repo'', ''get_contents''])"
    using sim_fetch [of "[]"] by (simp add: demo_repo_def)
  have 6: "re_search two_groups ''(a)|(b)'' ''text'' = ReMatch ''a'' [Some ''a'', None]"
    by (simp add: two_groups_def sim_lib_def)
  have c: "ph_config (regex_def ''v'' ''f.yml'' 2) =
      no_config\<lparr>cfg_pattern := Some ''(a)|(b)'', cfg_group_index := Some 2\<rparr>"
    by (simp add: regex_def_def)
  have r: "regex_def ''v'' ''f.yml'' 2 = \<lparr>ph_name = Some ''v'', ph_file_path = Some ''f.yml'',
      ph_method = Some ''Regex'',
      ph_config = no_config\<lparr>cfg_pattern := Some ''(a)|(b)'', cfg_group_index := Some 2\<rparr>\<rparr>"
    by (simp add: regex_def_def)
  show ?thesis
    using c10_unmatched_group_is_no_value [OF 1 _ _ _ _ 6, of
        "no_config\<lparr>cfg_pattern := Some ''(a)|(b)'', cfg_group_index := Some 2\<rparr>" 2 "''v''" "[]" "[]"]
    by (simp add: c r demo_repo_def)
qed

text \<open>
  C8. When the definitions before \<open>d\<close> went through, \<open>d\<close> is valid and its extraction
  reports an error, resolution returns \<open>ok = False\<close>; the dictionary, the log and the host
  state are those reached at \<open>d\<close>, whatever definitions follow it, so none of them is
  processed. A definition with an empty name, file path or method only adds a warning
  line, and resolution goes on with the next definition.
\<close>

theorem c8_first_error_aborts:
  "(resolve_loop g lib repo_info pre r l h = ((r1, l1, True), h1) \<and> \<not> invalid_definition d \<and>
    extract_placeholder_value g lib h1 (r_full_name repo_info) (r_default_branch repo_info)
       (the (ph_file_path d)) (the (ph_method d)) (ph_config d) = (res, h2) \<and>
    truthy (per_error res)
    \<longrightarrow> resolve_loop g lib repo_info (pre @ d # post) r l h =
          ((r1, l1 @ [resolve_error_line (the (ph_name d)) (the (ph_file_path d))
                        (the (per_error res))], False), h2))
   \<and> (invalid_definition d' \<longrightarrow>
        resolve_loop g lib repo_info (d' # rest) r l h =
        resolve_loop g lib repo_info rest r (l @ [skipped_line d']) h)"
  by (simp add: resolve_loop_append Let_def resolve_error_line_def skipped_line_def)

lemma sim_extract_group1:
  "extract_placeholder_value (sim_github one_file) two_groups h ''acme/demo'' ''main''
       ''f.yml'' ''Regex'' (ph_config (regex_def nm ''f.yml'' 1)) =
     (\<lparr>per_value = Some ''a'', per_error = None\<rparr>, h @ [''get_repo'', ''get_contents''])"
  by (simp add: extract_placeholder_value_def sim_fetch extraction_logic_def two_groups_def
      sim_lib_def regex_def_def no_config_def Let_def)

lemma sim_extract_missing:
  "extract_placeholder_value (sim_github one_file) two_groups h ''acme/demo'' ''main''
       ''gone.yml'' ''Regex'' cfg =
     (\<lparr>per_value = None,
       per_error = Some (''Failed to get file '' @ quoted ''gone.yml'' @ '': File ''
          @ quoted ''gone.yml'' @ '' not found in branch '' @ quoted ''main''
          @ '' of acme/demo.'')\<rparr>, h @ [''get_repo'', ''get_contents''])"
  by (simp add: extract_placeholder_value_def get_file_content_def sim_github_def one_file_def
      fc_failure_def)

lemma valid_regex_def: "nm \<noteq> [] \<Longrightarrow> fp \<noteq> [] \<Longrightarrow> \<not> invalid_definition (regex_def nm fp i)"
  by (simp add: invalid_definition_def regex_def_def)

lemma regex_def_sel:
  "ph_name (regex_def nm fp i) = Some nm" "ph_file_path (regex_def nm fp i) = Some fp"
  "ph_method (regex_def nm fp i) = Some ''Regex''"
  by (simp_all add: regex_def_def)

lemma sim_resolve_one:
  "nm \<noteq> [] \<Longrightarrow>
   resolve_loop (sim_github one_file) two_groups demo_repo [regex_def nm ''f.yml'' 1] r l h =
     ((dict_set nm ''a'' r,
       l @ [''- INFO: Placeholder '' @ quoted (braces nm) @ '' (from '' @ quoted ''f.yml''
              @ '') resolved to: '' @ quoted ''a''], True),
      h @ [''get_repo'', ''get_contents''])"
  using sim_extract_group1 [of h nm]
  by (simp add: valid_regex_def regex_def_sel demo_repo_def Let_def)

theorem c8_witness:
  "snd (snd (fst (resolve_loop (sim_github one_file) two_groups demo_repo
      ([regex_def ''v1'' ''f.yml'' 1] @ regex_def ''v2'' ''gone.yml'' 1 # [regex_def ''v3'' ''f.yml'' 1])
      [] [] []))) = False \<and>
   snd (resolve_loop (sim_github one_file) two_groups demo_repo
      ([regex_def ''v1'' ''f.yml'' 1] @ regex_def ''v2'' ''gone.yml'' 1 # [regex_def ''v3'' ''f.yml'' 1])
      [] [] []) = [''get_repo'', ''get_contents'', ''get_repo'', ''get_contents''] \<and>
   invalid_definition (regex_def [] ''f.yml'' 1) \<and>
   snd (snd (fst (resolve_loop (sim_github one_file) two_groups demo_repo
      (regex_def [] ''f.yml'' 1 # [regex_def ''v1'' ''f.yml'' 1]) [] [] []))) = True"
proof -
  have pre: "resolve_loop (sim_github one_file) two_groups demo_repo [regex_def ''v1'' ''f.yml'' 1]
      [] [] [] =
     (([(''v1'', ''a'')],
       [''- INFO: Placeholder '' @ quoted (braces ''v1'') @ '' (from '' @ quoted ''f.yml''
              @ '') resolved to: '' @ quoted ''a''], True), [''get_repo'', ''get_contents''])"
    using sim_resolve_one [of "''v1''" "[]" "[]" "[]"] by simp
  have v: "\<not> invalid_definition (regex_def ''v2'' ''gone.yml'' 1)"
    by (simp add: valid_regex_def)
  have ex: "extract_placeholder_value (sim_github one_file) two_groups [''get_repo'', ''get_contents'']
      (r_full_name demo_repo) (r_default_branch demo_repo)
      (the (ph_file_path (regex_def ''v2'' ''gone.yml'' 1)))
      (the (ph_method (regex_def ''v2'' ''gone.yml'' 1))) (ph_config (regex_def ''v2'' ''gone.yml'' 1)) =
     (\<lparr>per_value = None,
       per_error = Some (''Failed to get file '' @ quoted ''gone.yml'' @ '': File ''
          @ quoted ''gone.yml'' @ '' not found in branch '' @ quoted ''main''
          @ '' of acme/demo.'')\<rparr>, [''get_repo'', ''get_contents'', ''get_repo'', ''get_contents''])"
    using sim_extract_missing [of "[''get_repo'', ''get_contents'']"]
    by (simp add: regex_def_sel demo_repo_def)
  have t: "truthy (per_error \<lparr>per_value = None,
       per_error = Some (''Failed to get file '' @ quoted ''gone.yml'' @ '': File ''
          @ quoted ''gone.yml'' @ '' not found in branch '' @ quoted ''main''
          @ '' of acme/demo.'')\<rparr>)"
    by simp
  have inv: "invalid_definition (regex_def [] ''f.yml'' 1)"
    by (simp add: invalid_definition_def regex_def_def)
  note c8 = c8_first_error_aborts [of "sim_github one_file" two_groups demo_repo
      "[regex_def ''v1'' ''f.yml'' 1]" "[]" "[]" "[]" _ _ _ "regex_def ''v2'' ''gone.yml'' 1"
      _ _ "[regex_def ''v3'' ''f.yml'' 1]" "regex_def [] ''f.yml'' 1" "[regex_def ''v1'' ''f.yml'' 1]"]
  have a: "resolve_loop (sim_github one_file) two_groups demo_repo
      ([regex_def ''v1'' ''f.yml'' 1] @ regex_def ''v2'' ''gone.yml'' 1 # [regex_def ''v3'' ''f.yml'' 1])
      [] [] [] =
      (([(''v1'', ''a'')],
       [''- INFO: Placeholder '' @ quoted (braces ''v1'') @ '' (from '' @ quoted ''f.yml''
              @ '') resolved to: '' @ quoted ''a''] @
       [resolve_error_line (the (ph_name (regex_def ''v2'' ''gone.yml'' 1)))
          (the (ph_file_path (regex_def ''v2'' ''gone.yml'' 1)))
          (the (per_error \<lparr>per_value = None,
            per_error = Some (''Failed to get file '' @ quoted ''gone.yml'' @ '': File ''
              @ quoted ''gone.yml'' @ '' not found in branch '' @ quoted ''main''
              @ '' of acme/demo.'')\<rparr>))], False),
       [''get_repo'', ''get_contents'', ''get_repo'', ''get_contents''])"
    using c8 pre v ex t by blast
  have b: "resolve_loop (sim_github one_file) two_groups demo_repo
      (regex_def [] ''f.yml'' 1 # [regex_def ''v1'' ''f.yml'' 1]) [] [] [] =
      resolve_loop (sim_github one_file) two_groups demo_repo [regex_def ''v1'' ''f.yml'' 1] []
        ([] @ [skipped_line (regex_def [] ''f.yml'' 1)]) []"
    using c8 inv by blast
  show ?thesis
    unfolding a b using inv sim_resolve_one [of "''v1''"] by simp
qed

subsection \<open>Reserved keys\<close>

lemma resolve_loop_keeps:
  "k \<notin> set (valid_names defs) \<Longrightarrow>
   map_of (fst (fst (resolve_loop g lib repo_info defs r l h))) k = map_of r k"
proof (induction defs arbitrary: r l h)
  case Nil
  show ?case by simp
next
  case (Cons d defs)
  show ?case
  proof (cases "invalid_definition d")
    case True
    with Cons show ?thesis by (simp add: valid_names_def)
  next
    case False
    with Cons.prems have k: "k \<noteq> the (ph_name d)" "k \<notin> set (valid_names defs)"
      by (auto simp: valid_names_def)
    show ?thesis
      using False k Cons.IH [OF k(2)]
      by (simp add: Let_def dict_set_map_of split: prod.splits)
  qed
qed

text \<open>
  C1, as the code has it. The dictionary is seeded with the four reserved keys; a key
  under which no valid definition stores keeps its seeded value. A definition that
  resolves without error is stored under its own name and replaces whatever was there,
  a reserved key included. Parameter processing afterwards rewrites only \<open>file_path\<close>.
\<close>

theorem c1_last_write_wins:
  "(k \<notin> set (valid_names defs) \<longrightarrow>
      map_of (fst (fst (resolve_all_placeholders_for_repo g lib h repo_info defs ts))) k =
      map_of (builtin_placeholders repo_info ts) k)
   \<and> (resolve_loop g lib repo_info pre r l h = ((r1, l1, True), h1) \<and> \<not> invalid_definition d \<and>
      extract_placeholder_value g lib h1 (r_full_name repo_info) (r_default_branch repo_info)
         (the (ph_file_path d)) (the (ph_method d)) (ph_config d) = (res, h2) \<and>
      \<not> truthy (per_error res)
      \<longrightarrow> map_of (fst (fst (resolve_loop g lib repo_info (pre @ [d]) r l h))) (the (ph_name d)) =
            Some (case per_value res of None \<Rightarrow> [] | Some s \<Rightarrow> s))
   \<and> (k \<noteq> ''file_path'' \<longrightarrow>
        map_of (snd (snd (process_action_params ps r keys))) k = map_of r k)"
proof (intro conjI impI)
  assume "k \<notin> set (valid_names defs)"
  then show "map_of (fst (fst (resolve_all_placeholders_for_repo g lib h repo_info defs ts))) k =
      map_of (builtin_placeholders repo_info ts) k"
    by (simp add: resolve_all_placeholders_for_repo_def resolve_loop_keeps)
next
  assume "resolve_loop g lib repo_info pre r l h = ((r1, l1, True), h1) \<and> \<not> invalid_definition d \<and>
      extract_placeholder_value g lib h1 (r_full_name repo_info) (r_default_branch repo_info)
         (the (ph_file_path d)) (the (ph_method d)) (ph_config d) = (res, h2) \<and>
      \<not> truthy (per_error res)"
  then show "map_of (fst (fst (resolve_loop g lib repo_info (pre @ [d]) r l h))) (the (ph_name d)) =
            Some (case per_value res of None \<Rightarrow> [] | Some s \<Rightarrow> s)"
    by (simp add: resolve_loop_append Let_def dict_set_map_of)
next
  assume "k \<noteq> ''file_path''"
  then show "map_of (snd (snd (process_action_params ps r keys))) k = map_of r k"
    by (simp add: process_action_params_def Let_def dict_set_map_of split: prod.splits)
qed

text \<open>
  The claim as stated fails: a definition named \<open>repo_name\<close> that resolves to \<open>a\<close> replaces
  the repository name \<open>demo\<close>.
\<close>

theorem c1_reserved_key_overridden:
  "map_of (fst (fst (resolve_all_placeholders_for_repo (sim_github one_file) two_groups []
      demo_repo [regex_def ''repo_name'' ''f.yml'' 1] ''20250101-000000''))) ''repo_name'' = Some ''a''
   \<and> snd (snd (fst (resolve_all_placeholders_for_repo (sim_github one_file) two_groups []
      demo_repo [regex_def ''repo_name'' ''f.yml'' 1] ''20250101-000000''))) = True
   \<and> r_name demo_repo = ''demo''"
proof -
  have r: "resolve_loop (sim_github one_file) two_groups demo_repo
      [regex_def ''repo_name'' ''f.yml'' 1] (builtin_placeholders demo_repo ''20250101-000000'')
      [] [] =
     ((dict_set ''repo_name'' ''a'' (builtin_placeholders demo_repo ''20250101-000000''),
       [] @ [''- INFO: Placeholder '' @ quoted (braces ''repo_name'') @ '' (from ''
          @ quoted ''f.yml'' @ '') resolved to: '' @ quoted ''a''], True),
      [] @ [''get_repo'', ''get_contents''])"
    by (rule sim_resolve_one) simp
  have n: "r_name demo_repo = ''demo''" by (simp add: demo_repo_def)
  show ?thesis
    unfolding resolve_all_placeholders_for_repo_def r
    using n by (simp add: builtin_placeholders_def)
qed

theorem c1_last_write_wins_witness:
  "''timestamp'' \<notin> set (valid_names [regex_def ''repo_name'' ''f.yml'' 1]) \<and>
   map_of (fst (fst (resolve_all_placeholders_for_repo (sim_github one_file) two_groups []
      demo_repo [regex_def ''repo_name'' ''f.yml'' 1] ''20250101-000000''))) ''timestamp'' =
     Some ''20250101-000000'' \<and>
   map_of (fst (fst (resolve_loop (sim_github one_file) two_groups demo_repo
      ([] @ [regex_def ''repo_name'' ''f.yml'' 1])
      (builtin_placeholders demo_repo ''20250101-000000'') [] []))) ''repo_name'' = Some ''a'' \<and>
   map_of (snd (snd (process_action_params [(''file_path'', ''x'')]
      (builtin_placeholders demo_repo ''20250101-000000'') []))) ''repo_name'' = Some ''demo''"
proof -
  have a: "''timestamp'' \<notin> set (valid_names [regex_def ''repo_name'' ''f.yml'' 1])"
    by (simp add: valid_names_def valid_regex_def regex_def_sel)
  have p: "resolve_loop (sim_github one_file) two_groups demo_repo []
      (builtin_placeholders demo_repo ''20250101-000000'') [] [] =
      ((builtin_placeholders demo_repo ''20250101-000000'', [], True), [])"
    by simp
  have v: "\<not> invalid_definition (regex_def ''repo_name'' ''f.yml'' 1)"
    by (simp add: valid_regex_def)
  have ex: "extract_placeholder_value (sim_github one_file) two_groups []
      (r_full_name demo_repo) (r_default_branch demo_repo)
      (the (ph_file_path (regex_def ''repo_name'' ''f.yml'' 1)))
      (the (ph_method (regex_def ''repo_name'' ''f.yml'' 1)))
      (ph_config (regex_def ''repo_name'' ''f.yml'' 1)) =
     (\<lparr>per_value = Some ''a'', per_error = None\<rparr>, [''get_repo'', ''get_contents''])"
    using sim_extract_group1 [of "[]" "''repo_name''"]
    by (simp add: regex_def_sel demo_repo_def)
  have t: "\<not> truthy (per_error \<lparr>per_value = Some ''a'', per_error = None\<rparr>)"
    by simp
  have f: "''repo_name'' \<noteq> ''file_path''" by simp
  note c1 = c1_last_write_wins [of "''timestamp''" "[regex_def ''repo_name'' ''f.yml'' 1]"
      "sim_github one_file" two_groups "[]" demo_repo "''20250101-000000''" "[]"
      "builtin_placeholders demo_repo ''20250101-000000''" "[]" _ _ _
      "regex_def ''repo_name'' ''f.yml'' 1"]
  note c1' = c1_last_write_wins [of "''repo_name''" "[]"
      "sim_github one_file" two_groups "[]" demo_repo "''20250101-000000''" "[]"
      "builtin_placeholders demo_repo ''20250101-000000''" "[]" _ _ _
      "regex_def ''repo_name'' ''f.yml'' 1" _ _ "[(''file_path'', ''x'')]" "[]"]
  have 1: "map_of (fst (fst (resolve_all_placeholders_for_repo (sim_github one_file) two_groups []
      demo_repo [regex_def ''repo_name'' ''f.yml'' 1] ''20250101-000000''))) ''timestamp'' =
     map_of (builtin_placeholders demo_repo ''20250101-000000'') ''timestamp''"
    using c1 a by blast
  have 2: "map_of (fst (fst (resolve_loop (sim_github one_file) two_groups demo_repo
      ([] @ [regex_def ''repo_name'' ''f.yml'' 1])
      (builtin_placeholders demo_repo ''20250101-000000'') [] [])))
      (the (ph_name (regex_def ''repo_name'' ''f.yml'' 1))) =
      Some (case per_value \<lparr>per_value = Some ''a'', per_error = None\<rparr> of
              None \<Rightarrow> [] | Some s \<Rightarrow> s)"
    using c1 p v ex t by blast
  have 3: "map_of (snd (snd (process_action_params [(''file_path'', ''x'')]
      (builtin_placeholders demo_repo ''20250101-000000'') []))) ''repo_name'' =
      map_of (builtin_placeholders demo_repo ''20250101-000000'') ''repo_name''"
    using c1' f by blast
  show ?thesis
    using a 1 2 3 by (simp add: builtin_placeholders_def demo_repo_def regex_def_sel)
qed


subsection \<open>The candidate paths of the YAML method, in general\<close>

text \<open>
  The aggregated message \<open>All YAML paths failed\<close> needs as many path errors as there are
  paths, so every candidate ended in an error. And whenever the YAML method extracts no
  value it sets an error text: the result without value and without error is out of its
  reach.
\<close>

lemma try_yaml_paths_errors:
  "try_yaml_paths data ps errs0 = (YNull, errs, raised) \<Longrightarrow>
   length errs = length errs0
     + length (filter (\<lambda>p. truthy (snd (get_value_from_path data p))) ps)"
proof (induction ps arbitrary: errs0)
  case Nil
  then show ?case by simp
next
  case (Cons p ps)
  obtain v e where g: "get_value_from_path data p = (v, e)"
    by (cases "get_value_from_path data p")
  show ?case
  proof (cases "v \<noteq> YNull \<and> \<not> truthy e")
    case True
    with Cons.prems g show ?thesis by (simp add: Let_def)
  next
    case False
    with Cons.prems g have
      "try_yaml_paths data ps
         (if truthy e then errs0 @ [''Path '' @ quoted p @ '': '' @ the e] else errs0) =
       (YNull, errs, raised)"
      by (auto simp: Let_def)
    from Cons.IH [OF this] g show ?thesis by simp
  qed
qed

lemma filter_full: "length (filter P xs) = length xs \<Longrightarrow> list_all P xs"
proof (induction xs)
  case Nil
  show ?case by simp
next
  case (Cons x xs)
  have le: "length (filter P xs) \<le> length xs" by (rule length_filter_le)
  show ?case
  proof (cases "P x")
    case True
    with Cons show ?thesis by simp
  next
    case False
    with Cons.prems le show ?thesis by simp
  qed
qed

lemma all_paths_failed_only_when_each_failed:
  assumes "try_yaml_paths data ps [] = (YNull, errs, raised)" and "length errs = length ps"
  shows "list_all (\<lambda>p. truthy (snd (get_value_from_path data p))) ps"
proof -
  have "length (filter (\<lambda>p. truthy (snd (get_value_from_path data p))) ps) = length ps"
    using try_yaml_paths_errors [OF assms(1)] assms(2) by simp
  then show ?thesis by (rule filter_full)
qed

lemma yaml_no_value_is_error:
  assumes "extraction_logic lib content fp ''YAML Path'' cfg = (YNull, err)"
  shows "truthy err"
proof -
  have m: "''YAML Path'' \<noteq> ''Regex''" "''YAML Path'' \<noteq> ''JSON Path''" by simp_all
  show ?thesis
  proof (cases "list_of_yaml_paths (cfg_yaml_path cfg) = []")
    case True
    with assms m show ?thesis by (auto simp: extraction_logic_def)
  next
    case False
    show ?thesis
    proof (cases "yaml_safe_load lib content")
      case (Loaded data)
      show ?thesis
      proof (cases "is_dict_or_list data")
        case True
        obtain ev errs raised where
          t: "try_yaml_paths data (list_of_yaml_paths (cfg_yaml_path cfg)) [] = (ev, errs, raised)"
          by (cases "try_yaml_paths data (list_of_yaml_paths (cfg_yaml_path cfg)) []") auto
        show ?thesis
          using assms m False Loaded True t
          by (auto simp: extraction_logic_def Let_def unexpected_error_def split: if_splits)
      next
        case F: False
        with assms m False Loaded show ?thesis by (auto simp: extraction_logic_def Let_def)
      qed
    next
      case (DecodeError t)
      with assms m False show ?thesis by (auto simp: extraction_logic_def Let_def)
    next
      case (LoadRaises t)
      with assms m False show ?thesis
        by (auto simp: extraction_logic_def Let_def unexpected_error_def)
    qed
  qed
qed

subsection \<open>Indices and values without text\<close>

text \<open>
  \<^verbatim>\<open>int\<close> refuses an index that follows a separator (code points 28 to 31) and any text of
  more than 4300 digits; it accepts blanks, NEL and the no-break space around the number,
  a sign, and single underscores between digits.
\<close>

lemma split_on_absent: "c \<notin> set xs \<Longrightarrow> split_on c xs = [xs]"
  by (induction xs) auto

lemma digit_is_plain:
  assumes "is_digit c"
  shows "\<not> int_space c" and "c \<noteq> CHR ''_''" and "c \<noteq> CHR ''-''" and "c \<noteq> CHR ''+''"
  using assms by (auto simp: is_digit_def int_space_def)

lemma int_strip_digits:
  assumes "list_all is_digit ds"
  shows "int_strip ds = ds"
proof (cases ds rule: rev_cases)
  case Nil
  then show ?thesis by (simp add: int_strip_def)
next
  case (snoc ys y)
  with assms have y: "\<not> int_space y" by (simp add: digit_is_plain)
  have "dropWhile int_space ds = ds"
  proof (cases ds)
    case Nil
    then show ?thesis by simp
  next
    case (Cons x xs)
    with assms have "\<not> int_space x" by (simp add: digit_is_plain)
    with Cons show ?thesis by simp
  qed
  with snoc y show ?thesis by (simp add: int_strip_def)
qed

lemma int_of_long_text_raises:
  assumes "4300 < length ds" and "list_all is_digit ds"
  shows "py_int ds = None"
proof -
  obtain c cs where ds: "ds = c # cs" using assms(1) by (cases ds) auto
  have c: "is_digit c" using assms(2) ds by simp
  have "CHR ''_'' \<notin> set ds"
    using assms(2) digit_is_plain(2) by (auto simp: list_all_iff)
  then have "split_on CHR ''_'' ds = [ds]" by (rule split_on_absent)
  then have "int_body ds = None" using assms(1) by (simp add: int_body_def)
  then show ?thesis
    using int_strip_digits [OF assms(2)] ds digit_is_plain(3,4) [OF c]
    by (simp add: py_int_def)
qed

lemma int_of_text_examples:
  "py_int [CHR 0x1F, CHR ''0''] = None \<and> py_int [CHR ''0'', CHR 0x1C] = None
   \<and> py_int [CHR 0x85, CHR ''0'', CHR 0xA0] = Some 0 \<and> py_int '' +1_0 '' = Some 10
   \<and> py_int ''-07'' = Some (- 7) \<and> py_int ''1__0'' = None \<and> py_int ''+ 1'' = None
   \<and> py_int [] = None"
  by code_simp

text \<open>
  Against \<open>{a: [5], b: 7}\<close> the path made of \<open>a\<close> and of the index written as the
  separator 31 followed by \<open>0\<close> is an invalid index, so that the second path \<open>b\<close> gives
  the value.
\<close>

lemma index_after_a_separator_is_invalid:
  "extract_placeholder_value (sim_github one_file)
     (sim_lib (Loaded (YDict [(KStr ''a'', YList [YInt 5]), (KStr ''b'', YInt 7)])) ReNoMatch) []
     ''acme/demo'' ''main'' ''f.yml'' ''YAML Path''
     (no_config\<lparr>cfg_yaml_path := YamlPathList [[CHR ''a'', CHR ''.'', CHR 0x1F, CHR ''0''], ''b'']\<rparr>) =
   (\<lparr>per_value = Some ''7'', per_error = None\<rparr>, [''get_repo'', ''get_contents''])"
  by code_simp

text \<open>
  A value that has no text: the loop over the paths stops at it, the log line raises, and
  the extraction ends in the error of the last handler; the next path is not tried. What
  leaves the block without an error has a text.
\<close>

lemma try_yaml_paths_text:
  "try_yaml_paths data ps errs0 = (ev, errs, None) \<Longrightarrow> \<not> str_raises ev"
proof (induction ps arbitrary: errs0)
  case Nil
  then show ?case by simp
next
  case (Cons p ps)
  obtain v e where g: "get_value_from_path data p = (v, e)"
    by (cases "get_value_from_path data p")
  show ?case
  proof (cases "v \<noteq> YNull \<and> \<not> truthy e")
    case True
    with Cons.prems g show ?thesis by (auto simp: Let_def split: if_splits)
  next
    case False
    with Cons.prems g have
      "try_yaml_paths data ps
         (if truthy e then errs0 @ [''Path '' @ quoted p @ '': '' @ the e] else errs0) =
       (ev, errs, None)"
      by (auto simp: Let_def)
    from Cons.IH [OF this] show ?thesis .
  qed
qed

lemma show_nat_nonempty: "0 < length (show_nat n)"
  by (subst show_nat.simps) simp

lemma show_nat_digits: "10 ^ k \<le> n \<Longrightarrow> k < length (show_nat n)"
proof (induction k arbitrary: n)
  case 0
  show ?case by (rule show_nat_nonempty)
next
  case (Suc k)
  have "(10::nat) ^ k * 10 \<le> n" using Suc.prems by (simp add: mult.commute)
  then have d: "10 ^ k \<le> n div 10" by (simp add: less_eq_div_iff_mult_less_eq)
  have "(1::nat) \<le> 10 ^ k" by simp
  with Suc.prems have ge: "\<not> n < 10" by (cases "n < 10") (auto simp: not_less)
  have "show_nat n = show_nat (n div 10) @ [digit_char (n mod 10)]"
    using ge by (subst show_nat.simps) simp
  with Suc.IH [OF d] show ?case by simp
qed

lemma huge_has_no_text: "int_too_long huge"
proof -
  have a: "nat \<bar>(10::int) ^ k\<bar> = 10 ^ k" for k by (simp add: nat_power_eq)
  have b: "k < length (show_nat (10 ^ k))" for k by (rule show_nat_digits) simp
  show ?thesis
    unfolding int_too_long_def huge_def by (simp only: a b)
qed

lemma huge_path: "get_value_from_path huge_doc ''a'' = (YInt huge, None)"
  by (simp add: get_value_from_path_def huge_doc_def)

lemma value_without_text_is_an_error:
  "extract_placeholder_value (sim_github one_file) (sim_lib (Loaded huge_doc) ReNoMatch) []
     ''acme/demo'' ''main'' ''f.yml'' ''YAML Path''
     (no_config\<lparr>cfg_yaml_path := YamlPathList [''a'', ''b'']\<rparr>) =
   (\<lparr>per_value = None,
     per_error = Some (''Unexpected error during value extraction: '' @ int_limit_message)\<rparr>,
    [''get_repo'', ''get_contents''])"
proof -
  have p: "list_of_yaml_paths (YamlPathList [''a'', ''b'']) = [''a'', ''b'']"
    by (simp add: list_of_yaml_paths_def strip_def is_space_def)
  have d: "is_dict_or_list huge_doc" by (simp add: huge_doc_def)
  have "extraction_logic (sim_lib (Loaded huge_doc) ReNoMatch) ''text'' ''f.yml'' ''YAML Path''
     (no_config\<lparr>cfg_yaml_path := YamlPathList [''a'', ''b'']\<rparr>) =
     (YInt huge, Some (''Unexpected error during value extraction: '' @ int_limit_message))"
    by (simp add: extraction_logic_def p d sim_lib_def Let_def unexpected_error_def
        huge_path huge_has_no_text)
  then show ?thesis
    by (simp add: extract_placeholder_value_def sim_fetch [of "[]", simplified]
        int_limit_message_def)
qed

lemma extraction_logic_has_text:
  assumes "extraction_logic lib content fp method cfg = (v, err)" and "\<not> truthy err"
  shows "\<not> str_raises v"
proof (cases "method = ''Regex''")
  case True
  with assms show ?thesis
    by (auto simp: extraction_logic_def Let_def unexpected_error_def
        split: if_splits re_result.splits option.splits)
next
  case nr: False
  show ?thesis
  proof (cases "method = ''JSON Path''")
    case True
    with assms nr show ?thesis
      by (auto simp: extraction_logic_def Let_def unexpected_error_def
          split: if_splits load_result.splits prod.splits)
  next
    case nj: False
    show ?thesis
    proof (cases "method = ''YAML Path''")
      case False
      with assms nr nj show ?thesis by (simp add: extraction_logic_def)
    next
      case True
      show ?thesis
      proof (cases "list_of_yaml_paths (cfg_yaml_path cfg) = []")
        case e: True
        with assms nr nj True show ?thesis by (simp add: extraction_logic_def)
      next
        case ne: False
        show ?thesis
        proof (cases "yaml_safe_load lib content")
          case (Loaded data)
          show ?thesis
          proof (cases "is_dict_or_list data")
            case d: True
            obtain ev errs raised where
              t: "try_yaml_paths data (list_of_yaml_paths (cfg_yaml_path cfg)) [] = (ev, errs, raised)"
              by (cases "try_yaml_paths data (list_of_yaml_paths (cfg_yaml_path cfg)) []") auto
            have r: "raised = None \<Longrightarrow> \<not> str_raises ev"
              using t try_yaml_paths_text by blast
            show ?thesis
              using assms nr nj True ne Loaded d t r
              by (auto simp: extraction_logic_def Let_def unexpected_error_def split: if_splits)
          next
            case False
            with assms nr nj True ne Loaded show ?thesis
              by (auto simp: extraction_logic_def Let_def)
          qed
        next
          case (DecodeError t)
          with assms nr nj True ne show ?thesis by (auto simp: extraction_logic_def Let_def)
        next
          case (LoadRaises t)
          with assms nr nj True ne show ?thesis
            by (auto simp: extraction_logic_def Let_def unexpected_error_def)
        qed
      qed
    qed
  qed
qed

section \<open>The executors\<close>

subsection \<open>The pull-request step\<close>

lemma no_commits_response:
  assumes "contains (error_detail_of d) ''No commits between''"
    and "contains (error_detail_of d) ''and''"
  shows "pull_request_handler g h repo repo_full_name head_branch base_branch d =
     (\<lparr>pr_html_url = None,
       pr_message = Some (''No new commits in '' @ quoted head_branch
         @ '' to create a Pull Request against '' @ quoted base_branch @ ''. ''
         @ error_detail_of d)\<rparr>, h)"
  using assms by (simp add: pull_request_handler_def Let_def)

lemma remove_pull_request_succeeds:
  "\<exists>r h1. remove_pull_request g h repo_info b params lg rs = (rs @ [r], h1)
     \<and> ar_repo r = r_name repo_info \<and> ar_success r"
  by (simp add: remove_pull_request_def result_of_def Let_def split: prod.splits)

lemma update_finish_without_url:
  assumes "create_pull_request g h (r_full_name repo_info) b (r_default_branch repo_info)
      (process_placeholders_in_string (uf_pr_title_input form) (map_of ph))
      (process_placeholders_in_string (uf_pr_body_input form) (map_of ph)) = (pr, h1)"
    and "\<not> truthy (pr_html_url pr)"
  shows "\<exists>r. update_finish g h form repo_info b True all_ok lg ph rs = (rs @ [r], h1)
     \<and> ar_repo r = r_name repo_info \<and> \<not> ar_success r"
  using assms by (simp add: update_finish_def Let_def)

lemma add_finish_without_url:
  assumes "update_file g lib h repo_api p c (dict_get_or params ''commit_message'' []) b None
      ''Replace entire content'' None None False True None False = (res, h1)"
    and "fu_success res"
    and "create_pull_request g h1 (r_full_name repo_info) b (r_default_branch repo_info)
      (dict_get_or params ''pr_title'' []) (dict_get_or params ''pr_body'' []) = (pr, h2)"
    and "\<not> truthy (pr_html_url pr)"
  shows "\<exists>r. add_finish g lib h repo_info repo_api p c b params lg rs = (rs @ [r], h2)
     \<and> ar_repo r = r_name repo_info \<and> \<not> ar_success r"
  using assms by (simp add: add_finish_def Let_def)

text \<open>
  C2. The host answers the creation of the pull request with \<open>No commits between main
  and fix\<close>; \<open>create_pull_request\<close> returns no URL and the message \<open>No new commits \<dots>\<close>. The
  remove executor reports success without a URL. The update and add executors, on the
  same answer after a successful write, report \<open>success = False\<close>.
\<close>

theorem c2_no_commits_fails_update_and_add:
  "fst (create_pull_request (sim_github quiet_host) [] ''acme/demo'' ''fix'' ''main'' ''t'' ''b'') =
     \<lparr>pr_html_url = None,
      pr_message = Some (''No new commits in '' @ quoted ''fix''
        @ '' to create a Pull Request against '' @ quoted ''main''
        @ ''. No commits between main and fix'')\<rparr> \<and>
   map summary (fst (execute_remove_file_action (sim_github quiet_host) two_groups [] ''ts''
     [demo_repo] [] remove_form)) = [(''demo'', True, None)] \<and>
   map_sum id (map summary) (fst (execute_update_file_action (sim_github quiet_host) two_groups
     [] ''ts'' [demo_repo] [] update_form)) = Inr [(''demo'', False, None)] \<and>
   map_sum id (map summary) (fst (execute_add_new_file_action (sim_github quiet_host) two_groups
     [] ''ts'' [demo_repo] [] add_form)) = Inr [(''demo'', False, None)]"
  by code_simp

subsection \<open>Multi-file mode of the update\<close>








text \<open>
  In single-file mode a search string that does not occur leaves the content as it was
  read; the executor writes it, counts the accepted write as an update and goes on to
  create the pull request.
\<close>

lemma single_file_unchanged_content_opens_pull_request:
  "py_replace ''text'' ''zzz'' ''y'' = ''text'' \<and>
   snd (execute_update_file_action (sim_github one_file) two_groups [] ''ts'' [demo_repo] []
     single_form) =
     [''get_repo'', ''get_repo'', ''get_contents'', ''get_git_ref'', ''get_contents'',
      ''get_contents'', ''update_file f.yml text'', ''get_repo'', ''get_pulls'', ''create_pull''] \<and>
   map_sum id (map summary) (fst (execute_update_file_action (sim_github one_file) two_groups
     [] ''ts'' [demo_repo] [] single_form)) = Inr [(''demo'', True, Some ''https://pr/1'')]"
  by code_simp

text \<open>
  C9. Add executor, two repositories, the first of which the host no longer knows: the
  second call of \<^verbatim>\<open>g.get_repo\<close>, made inside the handler of the first, raises; the exception
  leaves the executor after two host calls, no list is returned and the second repository
  is never processed. Update executor, multi-file mode with a target path: an exception
  other than a host exception from \<^verbatim>\<open>repo.get_contents\<close> in \<open>find_target_files\<close> leaves the
  executor in the same way.
\<close>

theorem c9_exception_leaves_the_executor:
  "execute_add_new_file_action (sim_github gone_host) two_groups [] ''ts''
     [gone_repo, demo_repo] [] add_form =
     (Inl (UnknownObjectException not_found), [''get_repo'', ''get_repo'']) \<and>
   execute_update_file_action (sim_github timeout_host) two_groups [] ''ts''
     [demo_repo, demo_repo] [] sr_form =
     (Inl (OtherException ''timeout''), [''get_repo'', ''get_repo'', ''get_contents''])"
  by code_simp

text \<open>
  On the same two repositories the remove executor and the update executor report the
  first one as failed and go on to the second.
\<close>

lemma gone_repository_in_remove_and_update:
  "map summary (fst (execute_remove_file_action (sim_github gone_host) two_groups [] ''ts''
     [gone_repo, demo_repo] [] remove_form)) =
     [(''gone'', False, None), (''demo'', True, Some ''https://pr/1'')] \<and>
   map_sum id (map summary) (fst (execute_update_file_action (sim_github gone_host) two_groups
     [] ''ts'' [gone_repo, demo_repo] [] update_form)) =
     Inr [(''gone'', False, None), (''demo'', True, Some ''https://pr/1'')]"
  by code_simp

subsection \<open>One result for each repository\<close>

text \<open>
  The remove executor appends one result for each repository, in order, on every host.
  The update and add executors do so whenever they return.
\<close>

lemma appends_one_result [simp]: "appends_one repo_info rs (rs @ [result_of repo_info ok lg])"
  by (simp add: appends_one_def result_of_def)

lemma appends_one_record [simp]:
  "appends_one repo_info rs
     (rs @ [\<lparr>ar_repo = r_name repo_info, ar_success = ok, ar_message = m, ar_pr_url = u\<rparr>])"
  by (simp add: appends_one_def)

lemma appends_one_update [simp]:
  "appends_one repo_info rs (rs @ [(result_of repo_info ok lg)\<lparr>ar_pr_url := u\<rparr>])"
  by (simp add: appends_one_def result_of_def)

lemma remove_pull_request_one:
  "appends_one repo_info rs (fst (remove_pull_request g h repo_info b params lg rs))"
  by (simp add: remove_pull_request_def Let_def split: prod.splits)

lemma remove_delete_one:
  "appends_one repo_info rs (fst (remove_delete g h repo_info p b params lg rs))"
  by (simp add: remove_delete_def Let_def remove_pull_request_one split: prod.splits)

lemma remove_one_one:
  "appends_one repo_info rs (fst (remove_one g lib ts defs form repo_info (rs, h)))"
  by (simp add: remove_one_def Let_def remove_delete_one split: prod.splits)

lemma fold_remove_names:
  "map ar_repo (fst (fold (remove_one g lib ts defs form) repos (rs, h))) =
     map ar_repo rs @ map r_name repos"
proof (induction repos arbitrary: rs h)
  case Nil
  show ?case by simp
next
  case (Cons repo_info repos)
  obtain rs1 h1 where s: "remove_one g lib ts defs form repo_info (rs, h) = (rs1, h1)"
    by (cases "remove_one g lib ts defs form repo_info (rs, h)")
  have "appends_one repo_info rs rs1"
    using remove_one_one [of repo_info rs g lib ts defs form h] s by simp
  then obtain r where r: "rs1 = rs @ [r]" "ar_repo r = r_name repo_info"
    by (auto simp: appends_one_def)
  show ?case using s r Cons.IH [of rs1 h1] by simp
qed

lemma remove_one_result_per_repository:
  "map ar_repo (fst (execute_remove_file_action g lib h ts repos defs form)) = map r_name repos"
  by (simp add: execute_remove_file_action_def fold_remove_names)

lemma update_finish_one:
  "appends_one repo_info rs (fst (update_finish g h form repo_info b any all_ok lg ph rs))"
  by (simp add: update_finish_def Let_def split: prod.splits)

lemma update_one_one:
  assumes "update_one g lib ts defs form repo_info (rs, h) = (Inr rs', h')"
  shows "appends_one repo_info rs rs'"
  using assms
  by (auto simp: update_one_def Let_def case_prod_beta update_finish_one
      split: sum.splits if_splits step.splits)

lemma update_loop_names:
  "update_loop g lib ts defs form repos (rs, h) = (Inr rs', h') \<Longrightarrow>
   map ar_repo rs' = map ar_repo rs @ map r_name repos"
proof (induction repos arbitrary: rs h)
  case Nil
  then show ?case by simp
next
  case (Cons repo_info repos)
  from Cons.prems obtain rs1 h1 where
    s: "update_one g lib ts defs form repo_info (rs, h) = (Inr rs1, h1)"
    and l: "update_loop g lib ts defs form repos (rs1, h1) = (Inr rs', h')"
    by (auto split: prod.splits sum.splits)
  from update_one_one [OF s] obtain r where r: "rs1 = rs @ [r]" "ar_repo r = r_name repo_info"
    by (auto simp: appends_one_def)
  show ?case using Cons.IH [OF l] r by simp
qed

lemma add_finish_one:
  "appends_one repo_info rs (fst (add_finish g lib h repo_info repo_api p c b params lg rs))"
  by (simp add: add_finish_def Let_def split: prod.splits)

lemma add_one_one:
  assumes "add_one g lib ts defs form repo_info (rs, h) = (Inr rs', h')"
  shows "appends_one repo_info rs rs'"
  using assms
  by (auto simp: add_one_def Let_def case_prod_beta add_finish_one
      split: sum.splits if_splits step.splits)

lemma add_loop_names:
  "add_loop g lib ts defs form repos (rs, h) = (Inr rs', h') \<Longrightarrow>
   map ar_repo rs' = map ar_repo rs @ map r_name repos"
proof (induction repos arbitrary: rs h)
  case Nil
  then show ?case by simp
next
  case (Cons repo_info repos)
  from Cons.prems obtain rs1 h1 where
    s: "add_one g lib ts defs form repo_info (rs, h) = (Inr rs1, h1)"
    and l: "add_loop g lib ts defs form repos (rs1, h1) = (Inr rs', h')"
    by (auto split: prod.splits sum.splits)
  from add_one_one [OF s] obtain r where r: "rs1 = rs @ [r]" "ar_repo r = r_name repo_info"
    by (auto simp: appends_one_def)
  show ?case using Cons.IH [OF l] r by simp
qed

lemma one_result_per_repository_when_returning:
  "(fst (execute_update_file_action g lib h ts repos defs uform) = Inr rs \<longrightarrow>
      map ar_repo rs = map r_name repos) \<and>
   (fst (execute_add_new_file_action g lib h ts repos defs aform) = Inr rs' \<longrightarrow>
      map ar_repo rs' = map r_name repos)"
proof (intro conjI impI)
  assume "fst (execute_update_file_action g lib h ts repos defs uform) = Inr rs"
  then have "update_loop g lib ts defs uform repos ([], h) =
      (Inr rs, snd (update_loop g lib ts defs uform repos ([], h)))"
    by (simp add: execute_update_file_action_def prod_eq_iff)
  from update_loop_names [OF this] show "map ar_repo rs = map r_name repos" by simp
next
  assume "fst (execute_add_new_file_action g lib h ts repos defs aform) = Inr rs'"
  then have "add_loop g lib ts defs aform repos ([], h) =
      (Inr rs', snd (add_loop g lib ts defs aform repos ([], h)))"
    by (simp add: execute_add_new_file_action_def prod_eq_iff)
  from add_loop_names [OF this] show "map ar_repo rs' = map r_name repos" by simp
qed

text \<open>
  In the loop over the files, every file either sets \<^verbatim>\<open>any_file_updated_in_repo\<close> or clears
  \<^verbatim>\<open>all_file_ops_successful_in_repo\<close>. So when the loop ran over at least one file and no
  file was updated, the result that the branch without pull request appends has
  \<open>success = False\<close>.
\<close>

lemma update_one_file_flags:
  assumes "update_one_file g lib form repo_info repo_api ph b t ((any, all_ok, lg, pp), h) =
      ((any', all_ok', lg', pp'), h')"
  shows "(any' \<or> \<not> all_ok') \<and> (any \<longrightarrow> any') \<and> (\<not> all_ok \<longrightarrow> \<not> all_ok')"
  using assms
  by (auto simp: update_one_file_def Let_def split: prod.splits if_splits)

lemma files_loop_flags:
  assumes "fold (update_one_file g lib form repo_info repo_api ph b) targets
      ((any, all_ok, lg, pp), h) = ((any', all_ok', lg', pp'), h')"
    and "targets \<noteq> [] \<or> any \<or> \<not> all_ok"
  shows "any' \<or> \<not> all_ok'"
  using assms
proof (induction targets arbitrary: any all_ok lg pp h)
  case Nil
  then show ?case by simp
next
  case (Cons t targets)
  obtain a1 o1 l1 p1 h1 where
    s: "update_one_file g lib form repo_info repo_api ph b t ((any, all_ok, lg, pp), h) =
      ((a1, o1, l1, p1), h1)"
    by (metis prod.exhaust)
  from update_one_file_flags [OF s] have f: "a1 \<or> \<not> o1" by simp
  show ?case
    using Cons.IH [of a1 o1 l1 p1 h1] Cons.prems(1) s f by simp
qed

end
